theory Spec2Isabelle
  imports Main "HOL-Library.Word"
begin

unbundle bit_operations_syntax

section \<open>Data model of the server (src/server.c)\<close>

text \<open>
  Machine integers are words of their C width. \<open>gracht_conn_t\<close> is an \<open>int\<close> handle and is
  kept as a mathematical integer: the code only compares handles for equality.
\<close>

type_synonym u8 = "8 word"
type_synonym u32 = "32 word"
type_synonym u64 = "64 word"
type_synonym gracht_conn_t = int

text \<open>The values of \<open>errno\<close> the code assigns or tests, by name; \<open>Errno n\<close> is any other value.\<close>

datatype errno_t = EALREADY | EINVAL | ENOTSUP | ENODATA | ENOENT | EPIPE | E2BIG | ENOMEM
  | Errno int

text \<open>
  Modelled from the spec: \<open>struct gracht_server_client\<close> is declared in a header that is
  not part of the sources. The spec gives the client record a connection handle and a
  subscription bitmap of 256 bits, held as 8 words of 32 bits (\<open>subscriptions[8]\<close>).
\<close>

record gracht_server_client =
  client_handle :: gracht_conn_t
  subscriptions :: "u32 list"

text \<open>
  \<open>struct client_wrapper\<close>, the element type of the client registry. The registry is the
  only holder of the pointer \<open>client\<close>, so the client object is stored in the wrapper itself
  and a write through \<open>entry->client\<close> is a write to the registry's element.
\<close>

record client_wrapper =
  handle :: gracht_conn_t
  client :: gracht_server_client

text \<open>
  \<open>gracht_buffer_t\<close>: a byte buffer and a cursor. \<open>struct gracht_recv_message\<close>: the handle
  the message came from, the parse cursor and the received bytes (fields \<open>client\<close>,
  \<open>index\<close>, \<open>payload\<close> of the C struct; the first two are renamed here because
  the wrapper and the buffer already use these field names). Both are declared in headers
  outside the sources; the fields are those the code reads and writes. A buffer is the list
  of its bytes. The buffers of the server have \<open>allocationSize\<close> bytes, at least 512; a
  read beyond the end of a list has no specified value here.
\<close>

record gracht_buffer_t =
  data :: "u8 list"
  index :: u32

record gracht_recv_message =
  msg_client :: gracht_conn_t
  msg_index :: u32
  payload :: "u8 list"

text \<open>
  Modelled from the spec: \<open>gracht_protocol_t\<close> and its action table are declared outside
  the sources. The spec's protocol record is a protocol id (8 bits) with an ordered table
  of action descriptors, each holding an opaque function pointer; an action is identified
  by an 8-bit index.
\<close>

record gracht_protocol_function =
  function_id :: u8
  address :: nat

record gracht_protocol =
  protocol_id :: u8
  protocol_functions :: "gracht_protocol_function list"

text \<open>
  Everything the server does to the outside is a call through a function pointer or to a
  library that is not part of the sources. Each such call is recorded, in program order,
  in the field \<open>trace\<close> of the server state. A \<open>send_client\<close> is recorded with the
  status the link returned for it.
\<close>

datatype effect =
    ClientConnected gracht_conn_t
  | ClientDisconnected gracht_conn_t
  | CreateClient gracht_recv_message
  | DestroyClient gracht_server_client
  | SendClient gracht_server_client gracht_buffer_t u32 int
  | Respond gracht_recv_message gracht_buffer_t
  | Accept
  | Listen nat
  | AioCreate
  | AioAdd int gracht_conn_t
  | AioRemove int gracht_conn_t
  | ControlEventError gracht_conn_t u32 errno_t
  | WorkerPoolCreate int
  | WorkerPoolDispatch gracht_recv_message
  | ArenaCreate nat
  | ArenaAllocate
  | ArenaFree
  | Malloc nat

datatype server_operations = g_stOperations | g_mtOperations

record gracht_server_callbacks =
  clientConnected :: bool
  clientDisconnected :: bool

text \<open>
  \<open>struct gracht_server\<close>. Pointers to objects the code only tests against \<open>NULL\<close> are
  booleans (\<open>True\<close>: not null); \<open>ops\<close> is \<open>None\<close> for \<open>NULL\<close>. The callback table holds, for
  each callback, whether it is installed. The last two fields are not fields of the C struct: \<open>errno\<close> is the C
  library's error variable and \<open>trace\<close> the calls made so far.
\<close>

record gracht_server =
  ops :: "server_operations option"
  link :: bool
  callbacks :: gracht_server_callbacks
  arena :: bool
  worker_pool :: bool
  allocationSize :: nat
  sendBuffer :: bool
  recvBuffer :: bool
  initialized :: int
  set_handle :: int
  set_handle_provided :: int
  listen_handle :: gracht_conn_t
  dgram_handle :: gracht_conn_t
  protocols :: "gracht_protocol list"
  clients :: "client_wrapper list"
  errno :: errno_t
  trace :: "effect list"

text \<open>
  Constants and macros the code uses whose definitions are in headers outside the
  sources. They are parameters of the model: nothing below depends on their values.
\<close>

record server_consts =
  GRACHT_CONN_INVALID :: gracht_conn_t
  GRACHT_HANDLE_INVALID :: int
  GRACHT_AIO_EVENT_IN :: u32
  GRACHT_AIO_EVENT_DISCONNECT :: u32
  GRACHT_MESSAGE_HEADER_SIZE :: u32
  GRACHT_MESSAGE_BLOCK :: u32
  LINK_LISTEN_SOCKET :: nat
  LINK_LISTEN_DGRAM :: nat
  gracht_control_server_protocol :: gracht_protocol

text \<open>
  A call either returns or dereferences a null pointer; \<open>Crash\<close> keeps the state reached
  when that happens.
\<close>

datatype 'a outcome = Returns 'a | Crash gracht_server

text \<open>
  A protocol action is a callback behind a function pointer
  (\<open>((server_invoke_t)function->address)(recvMessage, &buffer)\<close>). What the callback at an
  address does to the server is given by the environment.
\<close>

type_synonym server_invoke_t =
  "nat \<Rightarrow> gracht_recv_message \<Rightarrow> gracht_buffer_t \<Rightarrow> gracht_server \<Rightarrow> gracht_server outcome"

section \<open>The hash table\<close>

text \<open>
  Modelled from the spec: the hash table (\<open>include/hashtable.h\<close>) is not part of the
  sources. The spec describes it as a generic keyed set with \<open>set\<close>, \<open>get\<close>, \<open>remove\<close>
  and \<open>enumerate(callback, ctx)\<close>. Here it is the list of its elements; \<open>key\<close> stands for
  the pair of hash and compare functions the table was constructed with (\<open>client_cmp\<close>
  compares the handles, \<open>protocol_cmp\<close> the protocol ids). \<open>set\<close> replaces the element with
  the same key or adds the element; \<open>remove\<close> returns the element found, if any;
  \<open>enumerate\<close> calls the callback on every element once.
\<close>

definition hashtable_get :: "('a \<Rightarrow> 'k) \<Rightarrow> 'a list \<Rightarrow> 'k \<Rightarrow> 'a option" where
  "hashtable_get key t k = find (\<lambda>e. key e = k) t"

fun hashtable_set :: "('a \<Rightarrow> 'k) \<Rightarrow> 'a list \<Rightarrow> 'a \<Rightarrow> 'a list" where
  "hashtable_set key [] x = [x]"
| "hashtable_set key (e # t) x =
     (if key e = key x then x # t else e # hashtable_set key t x)"

definition hashtable_remove :: "('a \<Rightarrow> 'k) \<Rightarrow> 'a list \<Rightarrow> 'k \<Rightarrow> 'a option \<times> 'a list" where
  "hashtable_remove key t k = (find (\<lambda>e. key e = k) t, filter (\<lambda>e. key e \<noteq> k) t)"

definition hashtable_enumerate :: "'a list \<Rightarrow> ('a \<Rightarrow> 's \<Rightarrow> 's) \<Rightarrow> 's \<Rightarrow> 's" where
  "hashtable_enumerate t callback s = fold callback t s"

section \<open>Reading and writing the message header\<close>

text \<open>
  The code reads and writes header fields through casts such as
  \<open>*((uint32_t*)&buffer.data[buffer.index + 0])\<close>; the wire format is little-endian.
\<close>

definition load32 :: "u8 list \<Rightarrow> nat \<Rightarrow> u32" where
  "load32 d i =
     ucast (d ! i) OR push_bit 8 (ucast (d ! (i + 1)))
       OR push_bit 16 (ucast (d ! (i + 2))) OR push_bit 24 (ucast (d ! (i + 3)))"

definition store32 :: "u8 list \<Rightarrow> nat \<Rightarrow> u32 \<Rightarrow> u8 list" where
  "store32 d i v =
     d[i := ucast v, i + 1 := ucast (drop_bit 8 v),
       i + 2 := ucast (drop_bit 16 v), i + 3 := ucast (drop_bit 24 v)]"

section \<open>Client subscription helpers\<close>

text \<open>
  \<open>client_subscribe\<close>, \<open>client_unsubscribe\<close>, \<open>client_is_subscribed\<close>. \<open>id\<close> is a
  \<open>uint8_t\<close>, so \<open>block = id / 32\<close> is at most 7. \<open>memset\<close> fills the whole array of 8
  words. The mask \<open>1 << offset\<close> is taken as the 32-bit word with that one bit set, also
  for offset 31.
\<close>

definition client_subscribe :: "gracht_server_client \<Rightarrow> u8 \<Rightarrow> gracht_server_client" where
  "client_subscribe c pid =
     (let block = unat pid div 32; offset = unat pid mod 32 in
      if pid = 0xFF then c\<lparr>subscriptions := replicate 8 0xFFFFFFFF\<rparr>
      else c\<lparr>subscriptions :=
        (subscriptions c)[block := (subscriptions c ! block) OR push_bit offset 1]\<rparr>)"

definition client_unsubscribe :: "gracht_server_client \<Rightarrow> u8 \<Rightarrow> gracht_server_client" where
  "client_unsubscribe c pid =
     (let block = unat pid div 32; offset = unat pid mod 32 in
      if pid = 0xFF then c\<lparr>subscriptions := replicate 8 0\<rparr>
      else c\<lparr>subscriptions :=
        (subscriptions c)[block := (subscriptions c ! block) AND NOT (push_bit offset 1)]\<rparr>)"

definition client_is_subscribed :: "gracht_server_client \<Rightarrow> u8 \<Rightarrow> int" where
  "client_is_subscribed c pid =
     (let block = unat pid div 32; offset = unat pid mod 32 in
      if (subscriptions c ! block) AND push_bit offset 1 \<noteq> 0 then 1 else 0)"

section \<open>The server link\<close>

text \<open>
  \<open>struct server_link_ops\<close> is a table of function pointers whose implementation is not
  part of the sources. What a call returns is given by the environment: \<open>listen\<close> returns
  a handle and may assign \<open>errno\<close>; \<open>accept\<close> and \<open>create_client\<close> return a status and
  the client object they made; \<open>send_client\<close> and \<open>respond\<close> return a status. The
  functions below take the table \<open>server->link\<close> points to as the parameter \<open>lnk\<close>: the
  configuration requires a link, and the server keeps in its field \<open>link\<close> only whether
  the pointer is set.
\<close>

record server_link_ops =
  listen :: "nat \<Rightarrow> gracht_conn_t \<times> errno_t option"
  accept :: "int \<times> gracht_server_client"
  create_client :: "gracht_recv_message \<Rightarrow> int \<times> gracht_server_client"
  send_client :: "gracht_server_client \<Rightarrow> gracht_buffer_t \<Rightarrow> u32 \<Rightarrow> int"
  respond :: "gracht_recv_message \<Rightarrow> gracht_buffer_t \<Rightarrow> int"

definition emit :: "effect \<Rightarrow> gracht_server \<Rightarrow> gracht_server" where
  "emit e s = s\<lparr>trace := trace s @ [e]\<rparr>"

section \<open>Client helpers\<close>

text \<open>\<open>client_destroy\<close> (server.c, 612-625).\<close>

definition client_destroy :: "gracht_server \<Rightarrow> gracht_conn_t \<Rightarrow> gracht_server" where
  "client_destroy server cl =
     (let s1 = (if clientDisconnected (callbacks server)
                then emit (ClientDisconnected cl) server else server);
          (entry, t) = hashtable_remove handle (clients s1) cl;
          s2 = s1\<lparr>clients := t\<rparr>
      in case entry of
           None \<Rightarrow> s2
         | Some e \<Rightarrow> emit (DestroyClient (client e)) s2)"

section \<open>Events\<close>

text \<open>
  \<open>client_enum_broadcast\<close> (717-727) and \<open>gracht_server_broadcast_event\<close> (566-579). The
  callback does not use the status \<open>send_client\<close> returns.
\<close>

definition client_enum_broadcast ::
  "server_link_ops \<Rightarrow> gracht_buffer_t \<Rightarrow> u32 \<Rightarrow> client_wrapper \<Rightarrow> gracht_server \<Rightarrow> gracht_server" where
  "client_enum_broadcast lnk message flags entry s =
     (let protocol = data message ! 8 in
      if client_is_subscribed (client entry) protocol \<noteq> 0
      then emit (SendClient (client entry) message flags
                   (send_client lnk (client entry) message flags)) s
      else s)"

definition gracht_server_broadcast_event ::
  "server_link_ops \<Rightarrow> gracht_server \<Rightarrow> gracht_buffer_t \<Rightarrow> u32 \<Rightarrow> int \<times> gracht_server \<times> gracht_buffer_t" where
  "gracht_server_broadcast_event lnk s message flags =
     (let message' = message\<lparr>data := store32 (data message) 4 (index message)\<rparr>;
          s' = hashtable_enumerate (clients s) (client_enum_broadcast lnk message' flags) s
      in (0, s', message'))"

text \<open>\<open>gracht_server_send_event\<close> (546-564).\<close>

definition gracht_server_send_event ::
  "server_link_ops \<Rightarrow> gracht_server \<Rightarrow> gracht_conn_t \<Rightarrow> gracht_buffer_t \<Rightarrow> u32
     \<Rightarrow> int \<times> gracht_server \<times> gracht_buffer_t" where
  "gracht_server_send_event lnk s cl message flags =
     (let message' = message\<lparr>data := store32 (data message) 4 (index message)\<rparr> in
      case hashtable_get handle (clients s) cl of
        None \<Rightarrow> (- 1, s\<lparr>errno := ENOENT\<rparr>, message')
      | Some clientEntry \<Rightarrow>
          (send_client lnk (client clientEntry) message' flags,
           emit (SendClient (client clientEntry) message' flags
                   (send_client lnk (client clientEntry) message' flags)) s, message'))"

section \<open>Responses\<close>

text \<open>
  \<open>gracht_server_respond\<close> (521-544). Either pointer may be \<open>NULL\<close> (\<open>None\<close>). The header
  update writes the first word of \<open>messageContext->payload\<close> to the first word of the
  response and the cursor of the response to its second word.
\<close>

definition gracht_server_respond ::
  "server_consts \<Rightarrow> server_link_ops \<Rightarrow> gracht_server \<Rightarrow> gracht_recv_message option
     \<Rightarrow> gracht_buffer_t option \<Rightarrow> int \<times> gracht_server \<times> gracht_buffer_t option" where
  "gracht_server_respond k lnk s messageContext message =
     (case (messageContext, message) of
        (Some ctx, Some msg) \<Rightarrow>
          (let d0 = store32 (data msg) 0 (load32 (payload ctx) 0);
               d1 = store32 d0 4 (index msg);
               msg' = msg\<lparr>data := d1\<rparr>
           in case hashtable_get handle (clients s) (msg_client ctx) of
                None \<Rightarrow> (respond lnk ctx msg', emit (Respond ctx msg') s, Some msg')
              | Some entry \<Rightarrow>
                  (send_client lnk (client entry) msg' (GRACHT_MESSAGE_BLOCK k),
                   emit (SendClient (client entry) msg' (GRACHT_MESSAGE_BLOCK k)
                           (send_client lnk (client entry) msg' (GRACHT_MESSAGE_BLOCK k))) s,
                   Some msg'))
      | _ \<Rightarrow> (- 1, s\<lparr>errno := EINVAL\<rparr>, message))"

section \<open>Action invocation\<close>

text \<open>
  Modelled from the spec: \<open>get_protocol_action\<close> is defined in a header outside the
  sources. The spec has the protocol registry keyed by protocol id and each protocol an
  ordered table of action descriptors; a miss of either yields \<open>NULL\<close>.
\<close>

definition get_protocol_action ::
  "gracht_protocol list \<Rightarrow> u8 \<Rightarrow> u8 \<Rightarrow> gracht_protocol_function option" where
  "get_protocol_action ps protocol action =
     (case hashtable_get protocol_id ps protocol of
        None \<Rightarrow> None
      | Some p \<Rightarrow> find (\<lambda>f. function_id f = action) (protocol_functions p))"

text \<open>
  The three header reads of \<open>server_invoke_action\<close> (450-452), at the parse cursor
  \<open>buffer.index = recvMessage->index\<close>: \<open>(messageId, protocol, action)\<close>.
\<close>

definition server_invoke_action_header :: "gracht_recv_message \<Rightarrow> u32 \<times> u8 \<times> u8" where
  "server_invoke_action_header recvMessage =
     (let buffer = \<lparr>data = payload recvMessage, index = msg_index recvMessage\<rparr> in
      (load32 (data buffer) (unat (index buffer) + 0),
       data buffer ! (unat (index buffer) + 8),
       data buffer ! (unat (index buffer) + 9)))"

text \<open>\<open>server_invoke_action\<close> (441-466).\<close>

definition server_invoke_action ::
  "server_consts \<Rightarrow> server_invoke_t \<Rightarrow> gracht_server \<Rightarrow> gracht_recv_message
     \<Rightarrow> gracht_server outcome" where
  "server_invoke_action k invoke server recvMessage =
     (let buffer = \<lparr>data = payload recvMessage, index = msg_index recvMessage\<rparr>;
          (messageId, protocol, action) = server_invoke_action_header recvMessage
      in case get_protocol_action (protocols server) protocol action of
           None \<Rightarrow>
             Returns (emit (ControlEventError (msg_client recvMessage) messageId ENOENT) server)
         | Some function \<Rightarrow>
             invoke (address function) recvMessage
               (buffer\<lparr>index := index buffer + GRACHT_MESSAGE_HEADER_SIZE k\<rparr>) server)"

section \<open>Buffers and dispatch: the two tables of \<open>server_operations\<close>\<close>

text \<open>
  \<open>get_in_buffer_st\<close> returns the static receive buffer, \<open>get_in_buffer_mt\<close> allocates
  from the arena. \<open>put_message_st\<close> does nothing, \<open>put_message_mt\<close> frees the block.
  \<open>dispatch_st\<close> invokes the action, \<open>dispatch_mt\<close> hands the message to the worker
  pool. The arena and the worker pool are libraries outside the sources: the calls are
  recorded in the trace. A call through \<open>server->ops\<close> when it is \<open>NULL\<close> crashes.
\<close>

definition get_incoming_buffer :: "server_operations \<Rightarrow> gracht_server \<Rightarrow> gracht_server" where
  "get_incoming_buffer sops s =
     (case sops of g_stOperations \<Rightarrow> s | g_mtOperations \<Rightarrow> emit ArenaAllocate s)"

definition put_message :: "server_operations \<Rightarrow> gracht_server \<Rightarrow> gracht_server" where
  "put_message sops s =
     (case sops of g_stOperations \<Rightarrow> s | g_mtOperations \<Rightarrow> emit ArenaFree s)"

definition dispatch ::
  "server_consts \<Rightarrow> server_invoke_t \<Rightarrow> server_operations \<Rightarrow> gracht_server
     \<Rightarrow> gracht_recv_message \<Rightarrow> gracht_server outcome" where
  "dispatch k invoke sops s message =
     (case sops of
        g_stOperations \<Rightarrow> server_invoke_action k invoke s message
      | g_mtOperations \<Rightarrow> Returns (emit (WorkerPoolDispatch message) s))"

text \<open>
  What a receive through the link (\<open>recv_packet\<close>, \<open>recv_client\<close>) does is given by the
  environment, one triple per call: the status returned, the value assigned to \<open>errno\<close>
  (if any) and the message left in the receive buffer, which is what \<open>dispatch\<close> is
  called with.
\<close>

type_synonym recv_t = "int \<times> errno_t option \<times> gracht_recv_message"

definition link_recv :: "recv_t \<Rightarrow> gracht_server \<Rightarrow> gracht_server" where
  "link_recv r s =
     (let (status, e, m) = r;
          s1 = (case e of None \<Rightarrow> s | Some v \<Rightarrow> s\<lparr>errno := v\<rparr>)
      in s1)"

section \<open>Event handling\<close>

text \<open>\<open>handle_client_socket\<close> (268-286).\<close>

definition handle_client_socket :: "server_link_ops \<Rightarrow> gracht_server \<Rightarrow> int \<times> gracht_server" where
  "handle_client_socket lnk server =
     (let (status, cl) = accept lnk; s0 = emit Accept server in
      if status \<noteq> 0 then (status, s0)
      else
        (let s1 = s0\<lparr>clients :=
               hashtable_set handle (clients s0) \<lparr>handle = client_handle cl, client = cl\<rparr>\<rparr>;
             s2 = emit (AioAdd (set_handle s1) (client_handle cl)) s1;
             s3 = (if clientConnected (callbacks s2)
                   then emit (ClientConnected (client_handle cl)) s2 else s2)
         in (0, s3)))"

text \<open>
  The loop of \<open>handle_sync_event\<close> (342-362). It runs until a receive fails, so its model
  consumes the outcomes of the receives the environment supplies and is \<open>None\<close> when
  they run out before a receive has failed.
\<close>

fun handle_sync_event ::
  "server_consts \<Rightarrow> server_invoke_t \<Rightarrow> recv_t list \<Rightarrow> gracht_server
     \<Rightarrow> (int \<times> gracht_server) outcome option" where
  "handle_sync_event k invoke [] server = None"
| "handle_sync_event k invoke (r # rx) server =
     (case ops server of
        None \<Rightarrow> Some (Crash server)
      | Some sops \<Rightarrow>
          (let s1 = link_recv r (get_incoming_buffer sops server) in
           if fst r \<noteq> 0 then Some (Returns (fst r, put_message sops s1))
           else case dispatch k invoke sops s1 (snd (snd r)) of
                  Crash c \<Rightarrow> Some (Crash c)
                | Returns s2 \<Rightarrow> handle_sync_event k invoke rx s2))"

text \<open>
  The loop \<open>while (entry)\<close> of \<open>handle_async_event\<close> (383-396); \<open>entry\<close> is not assigned in
  the loop.
\<close>

fun handle_async_event_loop ::
  "server_consts \<Rightarrow> server_invoke_t \<Rightarrow> recv_t list \<Rightarrow> gracht_server
     \<Rightarrow> gracht_server outcome option" where
  "handle_async_event_loop k invoke [] server = None"
| "handle_async_event_loop k invoke (r # rx) server =
     (case ops server of
        None \<Rightarrow> Some (Crash server)
      | Some sops \<Rightarrow>
          (let s1 = link_recv r (get_incoming_buffer sops server) in
           if fst r \<noteq> 0 then Some (Returns (put_message sops s1))
           else case dispatch k invoke sops s1 (snd (snd r)) of
                  Crash c \<Rightarrow> Some (Crash c)
                | Returns s2 \<Rightarrow> handle_async_event_loop k invoke rx s2))"

text \<open>\<open>handle_async_event\<close> (364-399).\<close>

definition handle_async_event ::
  "server_consts \<Rightarrow> server_invoke_t \<Rightarrow> recv_t list \<Rightarrow> gracht_server \<Rightarrow> gracht_conn_t \<Rightarrow> u32
     \<Rightarrow> (int \<times> gracht_server) outcome option" where
  "handle_async_event k invoke rx server h events =
     (if events AND GRACHT_AIO_EVENT_DISCONNECT k \<noteq> 0 then
        Some (Returns (0, client_destroy (emit (AioRemove (set_handle server) h) server) h))
      else if events AND GRACHT_AIO_EVENT_IN k \<noteq> 0 \<or> events = 0 then
        (case hashtable_get handle (clients server) h of
           None \<Rightarrow> Some (Returns (0, server))
         | Some entry \<Rightarrow>
             (case handle_async_event_loop k invoke rx server of
                None \<Rightarrow> None
              | Some (Crash c) \<Rightarrow> Some (Crash c)
              | Some (Returns s') \<Rightarrow> Some (Returns (0, s'))))
      else Some (Returns (0, server)))"

text \<open>\<open>gracht_server_handle_event\<close> (479-490).\<close>

definition gracht_server_handle_event ::
  "server_consts \<Rightarrow> server_link_ops \<Rightarrow> server_invoke_t \<Rightarrow> recv_t list \<Rightarrow> gracht_server
     \<Rightarrow> gracht_conn_t \<Rightarrow> u32 \<Rightarrow> (int \<times> gracht_server) outcome option" where
  "gracht_server_handle_event k lnk invoke rx s h events =
     (if h = listen_handle s then Some (Returns (handle_client_socket lnk s))
      else if h = dgram_handle s then handle_sync_event k invoke rx s
      else handle_async_event k invoke rx s h events)"

section \<open>The control protocol\<close>

text \<open>
  \<open>gracht_control_subscribe_invocation\<close> (664-685). When the handle has no entry,
  \<open>entry\<close> is \<open>NULL\<close> and stays so: the new element is built in \<open>newEntry\<close> and copied into
  the table, and the last statement reads \<open>entry->client\<close>.
\<close>

definition gracht_control_subscribe_invocation ::
  "server_link_ops \<Rightarrow> gracht_server \<Rightarrow> gracht_recv_message \<Rightarrow> u8 \<Rightarrow> gracht_server outcome" where
  "gracht_control_subscribe_invocation lnk s message protocol =
     (case hashtable_get handle (clients s) (msg_client message) of
        None \<Rightarrow>
          (let (status, cl) = create_client lnk message; s0 = emit (CreateClient message) s in
           if status \<noteq> 0 then Returns s0
           else
             (let newEntry = \<lparr>handle = msg_client message, client = cl\<rparr>;
                  s1 = s0\<lparr>clients := hashtable_set handle (clients s0) newEntry\<rparr>;
                  s2 = (if clientConnected (callbacks s1)
                        then emit (ClientConnected (msg_client message)) s1 else s1)
              in Crash s2))
      | Some entry \<Rightarrow>
          Returns (s\<lparr>clients := hashtable_set handle (clients s)
                     (entry\<lparr>client := client_subscribe (client entry) protocol\<rparr>)\<rparr>))"

text \<open>\<open>gracht_control_unsubscribe_invocation\<close> (687-702).\<close>

definition gracht_control_unsubscribe_invocation ::
  "gracht_server \<Rightarrow> gracht_recv_message \<Rightarrow> u8 \<Rightarrow> gracht_server" where
  "gracht_control_unsubscribe_invocation s message protocol =
     (case hashtable_get handle (clients s) (msg_client message) of
        None \<Rightarrow> s
      | Some entry \<Rightarrow>
          (let s1 = s\<lparr>clients := hashtable_set handle (clients s)
                      (entry\<lparr>client := client_unsubscribe (client entry) protocol\<rparr>)\<rparr>
           in if protocol = 0xFF then client_destroy s1 (msg_client message) else s1))"

section \<open>Initialization\<close>

text \<open>
  \<open>gracht_server_configuration_t\<close> (declared outside the sources; the fields are those
  \<open>configure_server\<close> reads). \<open>link\<close> and \<open>callbacks\<close> are renamed because the server
  has fields of these names.
\<close>

record gracht_server_configuration_t =
  cfg_link :: bool
  cfg_callbacks :: gracht_server_callbacks
  set_descriptor :: int
  set_descriptor_provided :: int
  server_workers :: int
  max_message_size :: nat

text \<open>
  The results of the library calls of \<open>configure_server\<close>: the handle
  \<open>gracht_aio_create\<close> returns, the status of \<open>gracht_worker_pool_create\<close> and of
  \<open>gracht_arena_create\<close>, and whether the first and the second \<open>malloc\<close> return a
  non-null pointer.
\<close>

record platform =
  gracht_aio_create :: int
  gracht_worker_pool_create :: int
  gracht_arena_create :: int
  malloc :: "nat \<Rightarrow> bool"

text \<open>\<open>configure_server\<close> (171-235).\<close>

definition configure_server ::
  "server_consts \<Rightarrow> platform \<Rightarrow> gracht_server \<Rightarrow> gracht_server_configuration_t
     \<Rightarrow> int \<times> gracht_server" where
  "configure_server k pf server configuration =
     (let s1 = server\<lparr>link := cfg_link configuration, callbacks := cfg_callbacks configuration\<rparr>;
          s2 = (if set_descriptor_provided configuration \<noteq> 0
                then s1\<lparr>set_handle := set_descriptor configuration, set_handle_provided := 1\<rparr>
                else (emit AioCreate s1)\<lparr>set_handle := gracht_aio_create pf\<rparr>)
      in if set_descriptor_provided configuration = 0 \<and> set_handle s2 = GRACHT_HANDLE_INVALID k
         then (- 1, s2)
         else
           (let s3 = s2\<lparr>allocationSize := max_message_size configuration + 512\<rparr> in
            if server_workers configuration > 1 then
              (let s4 = emit (WorkerPoolCreate (server_workers configuration)) s3 in
               if gracht_worker_pool_create pf \<noteq> 0 then (- 1, s4)
               else
                 (let s5 = s4\<lparr>worker_pool := True, ops := Some g_mtOperations\<rparr>;
                      arenaSize = nat (server_workers configuration) * allocationSize s5 * 32;
                      s6 = emit (ArenaCreate arenaSize) s5
                  in if gracht_arena_create pf \<noteq> 0 then (- 1, s6)
                     else (0, s6\<lparr>arena := True\<rparr>)))
            else
              (let s4 = s3\<lparr>ops := Some g_stOperations\<rparr>;
                   s5 = (emit (Malloc (allocationSize s4)) s4)\<lparr>sendBuffer := malloc pf 0\<rparr>
               in if \<not> sendBuffer s5 then (- 1, s5)
                  else
                    (let s6 = (emit (Malloc (allocationSize s5)) s5)\<lparr>recvBuffer := malloc pf 1\<rparr>
                     in if \<not> recvBuffer s6 then (- 1, s6) else (0, s6)))))"

text \<open>
  \<open>create_links\<close> (237-266). A failed \<open>listen\<close> is tested through \<open>errno\<close>, which holds
  what the link assigned last.
\<close>

definition link_listen :: "server_link_ops \<Rightarrow> nat \<Rightarrow> gracht_server \<Rightarrow> gracht_conn_t \<times> gracht_server" where
  "link_listen lnk kind s =
     (let (h, e) = listen lnk kind; s1 = emit (Listen kind) s in
      (h, case e of None \<Rightarrow> s1 | Some v \<Rightarrow> s1\<lparr>errno := v\<rparr>))"

definition create_links ::
  "server_consts \<Rightarrow> server_link_ops \<Rightarrow> gracht_server \<Rightarrow> int \<times> gracht_server" where
  "create_links k lnk server =
     (let (h1, s1) = link_listen lnk (LINK_LISTEN_SOCKET k) server;
          s2 = s1\<lparr>listen_handle := h1\<rparr>
      in if listen_handle s2 = GRACHT_CONN_INVALID k \<and> errno s2 \<noteq> ENOTSUP then (- 1, s2)
         else
           (let s3 = (if listen_handle s2 = GRACHT_CONN_INVALID k then s2
                      else emit (AioAdd (set_handle s2) (listen_handle s2)) s2);
                (h2, s4) = link_listen lnk (LINK_LISTEN_DGRAM k) s3;
                s5 = s4\<lparr>dgram_handle := h2\<rparr>
            in if dgram_handle s5 = GRACHT_CONN_INVALID k \<and> errno s5 \<noteq> ENOTSUP then (- 1, s5)
               else
                 (let s6 = (if dgram_handle s5 = GRACHT_CONN_INVALID k then s5
                            else emit (AioAdd (set_handle s5) (dgram_handle s5)) s5)
                  in if listen_handle s6 = GRACHT_CONN_INVALID k
                        \<and> dgram_handle s6 = GRACHT_CONN_INVALID k
                     then (- 1, s6) else (0, s6))))"

text \<open>\<open>gracht_server_register_protocol\<close> (581-590).\<close>

definition gracht_server_register_protocol ::
  "gracht_server \<Rightarrow> gracht_protocol option \<Rightarrow> int \<times> gracht_server" where
  "gracht_server_register_protocol s protocol =
     (case protocol of
        None \<Rightarrow> (- 1, s\<lparr>errno := EINVAL\<rparr>)
      | Some p \<Rightarrow> (0, s\<lparr>protocols := hashtable_set protocol_id (protocols s) p\<rparr>))"

text \<open>
  \<open>gracht_server_initialize\<close> (137-169); \<open>configuration\<close> is \<open>None\<close> for a null pointer.
  \<open>hashtable_construct\<close> leaves both registries empty.
\<close>

definition gracht_server_initialize ::
  "server_consts \<Rightarrow> platform \<Rightarrow> server_link_ops \<Rightarrow> gracht_server
     \<Rightarrow> gracht_server_configuration_t option \<Rightarrow> int \<times> gracht_server" where
  "gracht_server_initialize k pf lnk s configuration =
     (if initialized s \<noteq> 0 then (- 1, s\<lparr>errno := EALREADY\<rparr>)
      else case configuration of
        None \<Rightarrow> (- 1, s\<lparr>errno := EINVAL\<rparr>)
      | Some cfg \<Rightarrow>
          (let (status, s1) = configure_server k pf s cfg in
           if status \<noteq> 0 then (- 1, s1)
           else
             (let (status, s2) = create_links k lnk s1 in
              if status \<noteq> 0 then (- 1, s2)
              else
                (let s3 = s2\<lparr>protocols := [], clients := []\<rparr>;
                     (r, s4) = gracht_server_register_protocol s3
                                 (Some (gracht_control_server_protocol k))
                 in (0, s4\<lparr>initialized := 1\<rparr>)))))"

section \<open>The client socket link (src/link/socket/client.c)\<close>

text \<open>
  Constants of the system headers and of the gracht headers outside the sources, as
  parameters. \<open>sizeof_gracht_message\<close> and \<open>sizeof_gracht_param\<close> stand for
  \<open>sizeof(struct gracht_message)\<close> and \<open>sizeof(struct gracht_param)\<close>.
\<close>

record socket_consts =
  MSG_WAITALL :: u32
  MSG_DONTWAIT :: u32
  GRACHT_WAIT_BLOCK :: u32
  GRACHT_MAX_MESSAGE_SIZE :: u32
  sizeof_gracht_message :: u64
  sizeof_gracht_param :: u64
  GRACHT_MESSAGE_ERROR :: int
  GRACHT_MESSAGE_INPROGRESS :: int

datatype gracht_param_type = GRACHT_PARAM_VALUE | GRACHT_PARAM_BUFFER | GRACHT_PARAM_SHM

text \<open>
  Modelled from the spec: \<open>struct gracht_message\<close> and \<open>struct gracht_param\<close> are declared
  outside the sources. The spec's wire format has a header with id (32 bits), length
  (32 bits), protocol, action, and the counts \<open>param_in\<close> and \<open>param_out\<close> of 4 bits each,
  followed by the parameter descriptors, each with a type (scalar, buffer or
  shared memory), a length and a value, which for a buffer parameter is the pointer
  \<open>data.buffer\<close> on the sender's side. The fields \<open>id\<close>, \<open>length\<close>, \<open>type\<close> and
  \<open>data.buffer\<close> are renamed. \<open>params\<close> is the array that follows the header in memory,
  by index.
\<close>

record gracht_param =
  param_type :: gracht_param_type
  param_length :: u32
  param_buffer :: u64

record gracht_message_header =
  msg_id :: u32
  msg_length :: u32
  protocol :: u8
  action :: u8
  param_in :: "4 word"
  param_out :: "4 word"

record gracht_message =
  header :: gracht_message_header
  params :: "nat \<Rightarrow> gracht_param"

datatype gracht_link_type = gracht_link_stream_based | gracht_link_packet_based
  | gracht_link_other int

record socket_client_configuration =
  link_type :: gracht_link_type
  address_length :: u32

record socket_link_manager =
  config :: socket_client_configuration
  iod :: int

text \<open>
  An element of a scatter-gather vector (\<open>struct iovec\<close>): the base, which is the pointer
  \<open>message\<close> itself or a pointer value, and the length.
\<close>

datatype iov_base_t = MessagePtr | Ptr u64

record iovec =
  iov_base :: iov_base_t
  iov_len :: u64

text \<open>
  The system calls the link makes: \<open>recv(fd, buf, len, flags)\<close>,
  \<open>recvmsg(fd, &msg, flags)\<close> with the length of the one buffer of its vector, and
  \<open>sendmsg(fd, &msg, flags)\<close> with its vector. What a call returns is given by the
  environment (\<open>os\<close>), and so is the message a receive leaves in the buffer
  (\<open>incoming\<close>).
\<close>

datatype syscall =
    SysRecv int u64 u32
  | SysRecvmsg int u64 u32
  | SysSendmsg int "iovec list" u32

text \<open>
  What a link function does: it returns a value, having possibly assigned \<open>errno\<close>, made
  system calls and set \<open>*messageOut\<close>; or it stops in \<open>assert(0)\<close>.
\<close>

datatype link_result =
    Ret int "errno_t option" "syscall list" "gracht_message option"
  | AssertionFailed

text \<open>The value assigned to \<open>errno\<close> and the system calls made, read off a result.\<close>

fun result_errno :: "link_result \<Rightarrow> errno_t option" where
  "result_errno (Ret r e calls out) = e"
| "result_errno AssertionFailed = None"

fun result_calls :: "link_result \<Rightarrow> syscall list" where
  "result_calls (Ret r e calls out) = calls"
| "result_calls AssertionFailed = []"

text \<open>
  The loops over the in-parameters (71-81 and 150-160): one vector element per buffer
  parameter, \<open>assert(0)\<close> at a shared-memory parameter. \<open>None\<close> is the failed
  assertion. The two loops differ. \<open>socket_link_send_packet\<close> stores the length of the
  parameter as the length of the element and its buffer as the base.
  \<open>socket_link_send_stream\<close> has the two the other way round: line 73 assigns
  \<open>params[i].length\<close> through \<open>i_iobuf_set_buf\<close>, the base, and line 74 assigns
  \<open>params[i].data.buffer\<close> through \<open>i_iobuf_set_len\<close>, the length. The macro calls of
  lines 73, 74, 83 and 162 pass fewer arguments than the macros take; each is read as
  the assignment it spells, and the vector as the one handed to \<open>sendmsg\<close>.
\<close>

fun prepare_parameters_stream :: "gracht_param list \<Rightarrow> iovec list option" where
  "prepare_parameters_stream [] = Some []"
| "prepare_parameters_stream (p # ps) =
     (if param_type p = GRACHT_PARAM_BUFFER then
        (case prepare_parameters_stream ps of
           None \<Rightarrow> None
         | Some iov \<Rightarrow>
             Some (\<lparr>iov_base = Ptr (ucast (param_length p)), iov_len = param_buffer p\<rparr> # iov))
      else if param_type p = GRACHT_PARAM_SHM then None
      else prepare_parameters_stream ps)"

fun prepare_parameters_packet :: "gracht_param list \<Rightarrow> iovec list option" where
  "prepare_parameters_packet [] = Some []"
| "prepare_parameters_packet (p # ps) =
     (if param_type p = GRACHT_PARAM_BUFFER then
        (case prepare_parameters_packet ps of
           None \<Rightarrow> None
         | Some iov \<Rightarrow>
             Some (\<lparr>iov_base = Ptr (param_buffer p), iov_len = ucast (param_length p)\<rparr> # iov))
      else if param_type p = GRACHT_PARAM_SHM then None
      else prepare_parameters_packet ps)"

text \<open>
  \<open>socket_link_send_stream\<close> (56-94) and \<open>socket_link_send_packet\<close> (133-173). The first
  element of the vector is the message with its descriptors; the vector is sent with one
  \<open>sendmsg\<close> with flags 0. \<open>byteCount\<close> is an \<open>intmax_t\<close> and is compared with the 32-bit
  length as integers.
\<close>

definition socket_link_send_stream ::
  "socket_consts \<Rightarrow> (syscall \<Rightarrow> int) \<Rightarrow> socket_link_manager \<Rightarrow> gracht_message \<Rightarrow> link_result" where
  "socket_link_send_stream k os linkManager message =
     (let n_in = unat (param_in (header message));
          n_out = unat (param_out (header message));
          iov0 = \<lparr>iov_base = MessagePtr,
                  iov_len = sizeof_gracht_message k + of_nat (n_in + n_out) * sizeof_gracht_param k\<rparr>
      in case prepare_parameters_stream (map (params message) [0..<n_in]) of
           None \<Rightarrow> AssertionFailed
         | Some iov \<Rightarrow>
             (let call = SysSendmsg (iod linkManager) (iov0 # iov) 0;
                  byteCount = os call
              in if byteCount \<noteq> uint (msg_length (header message))
                 then Ret (GRACHT_MESSAGE_ERROR k) (Some EPIPE) [call] None
                 else Ret (GRACHT_MESSAGE_INPROGRESS k) None [call] None))"

definition socket_link_send_packet ::
  "socket_consts \<Rightarrow> (syscall \<Rightarrow> int) \<Rightarrow> socket_link_manager \<Rightarrow> gracht_message \<Rightarrow> link_result" where
  "socket_link_send_packet k os linkManager message =
     (let n_in = unat (param_in (header message));
          n_out = unat (param_out (header message));
          iov0 = \<lparr>iov_base = MessagePtr,
                  iov_len = sizeof_gracht_message k + of_nat (n_in + n_out) * sizeof_gracht_param k\<rparr>
      in case prepare_parameters_packet (map (params message) [0..<n_in]) of
           None \<Rightarrow> AssertionFailed
         | Some iov \<Rightarrow>
             (let call = SysSendmsg (iod linkManager) (iov0 # iov) 0;
                  byteCount = os call
              in if byteCount \<noteq> uint (msg_length (header message))
                 then Ret (GRACHT_MESSAGE_ERROR k) (Some EPIPE) [call] None
                 else Ret (GRACHT_MESSAGE_INPROGRESS k) None [call] None))"

text \<open>\<open>socket_link_send\<close> (247-267).\<close>

definition socket_link_send ::
  "socket_consts \<Rightarrow> (syscall \<Rightarrow> int) \<Rightarrow> socket_link_manager \<Rightarrow> gracht_message \<Rightarrow> link_result" where
  "socket_link_send k os linkManager message =
     (if msg_length (header message) > GRACHT_MAX_MESSAGE_SIZE k
      then Ret (GRACHT_MESSAGE_ERROR k) (Some E2BIG) [] None
      else if link_type (config linkManager) = gracht_link_stream_based
      then socket_link_send_stream k os linkManager message
      else if link_type (config linkManager) = gracht_link_packet_based
      then socket_link_send_packet k os linkManager message
      else Ret (GRACHT_MESSAGE_ERROR k) (Some ENOTSUP) [] None)"

text \<open>
  \<open>socket_link_recv_stream\<close> (96-131). \<open>bytes_read\<close> is a \<open>size_t\<close>: the value \<open>recv\<close>
  returns is converted to 64 bits unsigned, and so is the length of the second read.
\<close>

definition socket_link_recv_stream ::
  "socket_consts \<Rightarrow> (syscall \<Rightarrow> int) \<Rightarrow> gracht_message \<Rightarrow> socket_link_manager \<Rightarrow> u32
     \<Rightarrow> link_result" where
  "socket_link_recv_stream k os incoming linkManager flags =
     (let call1 = SysRecv (iod linkManager) (sizeof_gracht_message k) flags;
          bytes_read = (word_of_int (os call1) :: u64)
      in if bytes_read \<noteq> sizeof_gracht_message k then
           (if bytes_read = 0 then Ret (- 1) (Some ENODATA) [call1] None
            else Ret (- 1) (Some EPIPE) [call1] None)
         else if param_in (header incoming) \<noteq> 0 then
           (let rest = (ucast (msg_length (header incoming)) :: u64) - sizeof_gracht_message k;
                call2 = SysRecv (iod linkManager) rest (MSG_WAITALL k);
                bytes_read2 = (word_of_int (os call2) :: u64)
            in if bytes_read2 \<noteq> rest then Ret (- 1) (Some EPIPE) [call1, call2] None
               else Ret 0 None [call1, call2] (Some incoming))
         else Ret 0 None [call1] (Some incoming))"

text \<open>
  \<open>socket_link_recv_packet\<close> (175-204). \<open>bytes_read\<close> is an \<open>intmax_t\<close> and is compared
  with a \<open>size_t\<close>: where both have 64 bits the comparison is unsigned.
\<close>

definition socket_link_recv_packet ::
  "socket_consts \<Rightarrow> (syscall \<Rightarrow> int) \<Rightarrow> gracht_message \<Rightarrow> socket_link_manager \<Rightarrow> u32
     \<Rightarrow> link_result" where
  "socket_link_recv_packet k os incoming linkManager flags =
     (let call = SysRecvmsg (iod linkManager) (ucast (GRACHT_MAX_MESSAGE_SIZE k)) flags;
          bytes_read = os call
      in if (word_of_int bytes_read :: u64) < sizeof_gracht_message k then
           (if bytes_read = 0 then Ret (- 1) (Some ENODATA) [call] None
            else Ret (- 1) (Some EPIPE) [call] None)
         else Ret 0 None [call] (Some incoming))"

text \<open>\<open>socket_link_recv\<close> (227-245).\<close>

definition socket_link_recv ::
  "socket_consts \<Rightarrow> (syscall \<Rightarrow> int) \<Rightarrow> gracht_message \<Rightarrow> socket_link_manager \<Rightarrow> u32
     \<Rightarrow> link_result" where
  "socket_link_recv k os incoming linkManager flags =
     (let convertedFlags = MSG_WAITALL k;
          convertedFlags = (if flags AND GRACHT_WAIT_BLOCK k = 0
                            then convertedFlags OR MSG_DONTWAIT k else convertedFlags)
      in if link_type (config linkManager) = gracht_link_stream_based
         then socket_link_recv_stream k os incoming linkManager convertedFlags
         else if link_type (config linkManager) = gracht_link_packet_based
         then socket_link_recv_packet k os incoming linkManager convertedFlags
         else Ret (- 1) (Some ENOTSUP) [] None)"

section \<open>Example values\<close>

text \<open>
  Values for the constants (those of a Linux build where the sources or the system
  headers fix them: \<open>EPOLLIN\<close> and \<open>EPOLLRDHUP\<close> for the event bits), the static
  initializer of \<open>g_grachtServer\<close> (80-97), and a running single-threaded server with
  the three clients of the spec's scenario 3: handle 10 subscribed to protocol 3, handle
  11 to protocol 4 and handle 12 to all protocols. The example link fails every send.
\<close>

definition example_consts :: server_consts where
  "example_consts =
     \<lparr>GRACHT_CONN_INVALID = - 1, GRACHT_HANDLE_INVALID = - 1,
      GRACHT_AIO_EVENT_IN = 0x1, GRACHT_AIO_EVENT_DISCONNECT = 0x2000,
      GRACHT_MESSAGE_HEADER_SIZE = 12, GRACHT_MESSAGE_BLOCK = 0x1,
      LINK_LISTEN_SOCKET = 0, LINK_LISTEN_DGRAM = 1,
      gracht_control_server_protocol =
        \<lparr>protocol_id = 0, protocol_functions =
           [\<lparr>function_id = 0, address = 100\<rparr>, \<lparr>function_id = 1, address = 101\<rparr>]\<rparr>\<rparr>"

definition g_grachtServer :: "server_consts \<Rightarrow> gracht_server" where
  "g_grachtServer k =
     \<lparr>ops = None, link = False,
      callbacks = \<lparr>clientConnected = False, clientDisconnected = False\<rparr>,
      arena = False, worker_pool = False, allocationSize = 0,
      sendBuffer = False, recvBuffer = False, initialized = 0,
      set_handle = GRACHT_HANDLE_INVALID k, set_handle_provided = 0,
      listen_handle = GRACHT_CONN_INVALID k, dgram_handle = GRACHT_CONN_INVALID k,
      protocols = [], clients = [], errno = Errno 0, trace = []\<rparr>"

definition new_client :: "gracht_conn_t \<Rightarrow> gracht_server_client" where
  "new_client h = \<lparr>client_handle = h, subscriptions = replicate 8 0\<rparr>"

definition example_link :: server_link_ops where
  "example_link =
     \<lparr>listen = (\<lambda>kind. if kind = 0 then (3, None) else (4, None)),
      accept = (0, new_client 10),
      create_client = (\<lambda>m. (0, new_client (msg_client m))),
      send_client = (\<lambda>c m f. - 1),
      respond = (\<lambda>c m. 0)\<rparr>"

definition example_invoke :: server_invoke_t where
  "example_invoke a m b s = Returns s"

definition example_server :: gracht_server where
  "example_server =
     (g_grachtServer example_consts)
       \<lparr>ops := Some g_stOperations, link := True,
        callbacks := \<lparr>clientConnected = True, clientDisconnected = True\<rparr>,
        sendBuffer := True, recvBuffer := True, allocationSize := 1024, initialized := 1,
        set_handle := 2, listen_handle := 3, dgram_handle := 4,
        protocols := [gracht_control_server_protocol example_consts],
        clients :=
          [\<lparr>handle = 10, client = client_subscribe (new_client 10) 3\<rparr>,
           \<lparr>handle = 11, client = client_subscribe (new_client 11) 4\<rparr>,
           \<lparr>handle = 12, client = client_subscribe (new_client 12) 0xFF\<rparr>]\<rparr>"

definition example_event :: gracht_buffer_t where
  "example_event = \<lparr>data = [0, 0, 0, 0, 0, 0, 0, 0, 3, 1, 0, 0], index = 12\<rparr>"

text \<open>
  A subscribe request from handle 20, which has no client record (the datagram peer of the
  spec's scenario 6).
\<close>

definition example_subscribe :: gracht_recv_message where
  "example_subscribe = \<lparr>msg_client = 20, msg_index = 0, payload = []\<rparr>"

text \<open>
  A request received on the datagram handle 4. The receive buffer holds four bytes of
  peer address first, so the parse cursor is 4; the header that follows has id 7, length
  12, protocol 5 and action 1. The action registered for it answers through
  \<open>gracht_server_respond\<close> with a response buffer that was filled up to cursor 14.
\<close>

definition example_request :: gracht_recv_message where
  "example_request =
     \<lparr>msg_client = 4, msg_index = 4,
      payload = [0xAA, 0xBB, 0xCC, 0xDD, 7, 0, 0, 0, 12, 0, 0, 0, 5, 1, 0, 0]\<rparr>"

definition example_response :: gracht_buffer_t where
  "example_response = \<lparr>data = [0, 0, 0, 0, 0, 0, 0, 0, 5, 1, 0, 0, 0x6F, 0x6B], index = 14\<rparr>"

definition respond_action :: server_invoke_t where
  "respond_action a recvMessage buffer s =
     Returns (fst (snd (gracht_server_respond example_consts example_link s
        (Some recvMessage) (Some example_response))))"

definition example_protocol :: gracht_protocol where
  "example_protocol =
     \<lparr>protocol_id = 5, protocol_functions = [\<lparr>function_id = 1, address = 200\<rparr>]\<rparr>"

text \<open>
  A request from the client with handle 11 for action 0 of the control protocol, with its
  header at cursor 0.
\<close>

definition example_call :: gracht_recv_message where
  "example_call =
     \<lparr>msg_client = 11, msg_index = 0, payload = [1, 0, 0, 0, 12, 0, 0, 0, 0, 0, 0, 0]\<rparr>"

text \<open>A configuration for single-threaded mode, and links that support one endpoint or none.\<close>

definition example_platform :: platform where
  "example_platform =
     \<lparr>gracht_aio_create = 2, gracht_worker_pool_create = 0, gracht_arena_create = 0,
      malloc = (\<lambda>n. True)\<rparr>"

definition example_configuration :: gracht_server_configuration_t where
  "example_configuration =
     \<lparr>cfg_link = True, cfg_callbacks = \<lparr>clientConnected = True, clientDisconnected = True\<rparr>,
      set_descriptor = 0, set_descriptor_provided = 0, server_workers = 1,
      max_message_size = 512\<rparr>"

definition dgram_only_link :: server_link_ops where
  "dgram_only_link =
     example_link\<lparr>listen := (\<lambda>kind. if kind = 0 then (- 1, Some ENOTSUP) else (4, None))\<rparr>"

definition stream_only_link :: server_link_ops where
  "stream_only_link =
     example_link\<lparr>listen := (\<lambda>kind. if kind = 0 then (3, None) else (- 1, Some ENOTSUP))\<rparr>"

definition no_link :: server_link_ops where
  "no_link = example_link\<lparr>listen := (\<lambda>kind. (- 1, Some ENOTSUP))\<rparr>"

definition configured_server :: gracht_server where
  "configured_server =
     (g_grachtServer example_consts)
       \<lparr>ops := Some g_stOperations, link := True,
        callbacks := \<lparr>clientConnected = True, clientDisconnected = True\<rparr>,
        allocationSize := 1024, sendBuffer := True, recvBuffer := True, set_handle := 2,
        trace := [AioCreate, Malloc 1024, Malloc 1024]\<rparr>"

text \<open>
  Values for the client link: the flags of Linux, a maximal message size of 512 and the
  sizes of the spec's wire format; a message without parameters and a link on descriptor 3.
\<close>

definition example_socket_consts :: socket_consts where
  "example_socket_consts =
     \<lparr>MSG_WAITALL = 0x100, MSG_DONTWAIT = 0x40, GRACHT_WAIT_BLOCK = 0x1,
      GRACHT_MAX_MESSAGE_SIZE = 512, sizeof_gracht_message = 12, sizeof_gracht_param = 16,
      GRACHT_MESSAGE_ERROR = - 1, GRACHT_MESSAGE_INPROGRESS = 1\<rparr>"

definition example_message :: "u32 \<Rightarrow> gracht_message" where
  "example_message len =
     \<lparr>header = \<lparr>msg_id = 7, msg_length = len, protocol = 5, action = 1,
                 param_in = 0, param_out = 0\<rparr>,
      params = (\<lambda>i. \<lparr>param_type = GRACHT_PARAM_VALUE, param_length = 0, param_buffer = 0\<rparr>)\<rparr>"

text \<open>
  A message of 36 bytes with one in-parameter, a buffer of 8 bytes at address \<open>0x7000\<close>.
\<close>

definition example_buffer_message :: gracht_message where
  "example_buffer_message =
     \<lparr>header = \<lparr>msg_id = 8, msg_length = 36, protocol = 5, action = 2,
                 param_in = 1, param_out = 0\<rparr>,
      params = (\<lambda>i. \<lparr>param_type = GRACHT_PARAM_BUFFER, param_length = 8,
                       param_buffer = 0x7000\<rparr>)\<rparr>"

definition example_manager :: "gracht_link_type \<Rightarrow> socket_link_manager" where
  "example_manager t = \<lparr>config = \<lparr>link_type = t, address_length = 0\<rparr>, iod = 3\<rparr>"

section \<open>Basic facts\<close>

lemma trace_emit: "trace (emit e s) = trace s @ [e]"
  by (simp add: emit_def)

lemma clients_emit: "clients (emit e s) = clients s"
  by (simp add: emit_def)

lemma initialized_emit: "initialized (emit e s) = initialized s"
  by (simp add: emit_def)

lemma find_hashtable_set:
  "find (\<lambda>e. key e = key x) (hashtable_set key t x) = Some x"
  by (induction t) simp_all

lemma filter_hashtable_set:
  "filter (\<lambda>e. key e \<noteq> key x) (hashtable_set key t x) = filter (\<lambda>e. key e \<noteq> key x) t"
  by (induction t) simp_all

lemma hashtable_get_key: "hashtable_get key t k = Some e \<Longrightarrow> key e = k"
  by (auto simp: hashtable_get_def dest: find_Some_iff [THEN iffD1])

lemma hashtable_get_filter: "hashtable_get key (filter (\<lambda>e. key e \<noteq> k) t) k = None"
  by (simp add: hashtable_get_def find_None_iff)

lemma hashtable_get_None: "k \<notin> set (map key t) \<Longrightarrow> hashtable_get key t k = None"
  by (auto simp: hashtable_get_def find_None_iff)

lemma client_is_subscribed_bit:
  "client_is_subscribed c p \<noteq> 0 \<longleftrightarrow>
     bit (subscriptions c ! (unat p div 32)) (unat p mod 32)"
  by (simp add: client_is_subscribed_def Let_def bit_iff_and_push_bit_not_eq_0)

lemma store32_other: "j < i \<or> i + 3 < j \<Longrightarrow> store32 d i v ! j = d ! j"
  by (auto simp: store32_def)

lemma load32_store32: "i + 3 < length d \<Longrightarrow> load32 (store32 d i v) i = v"
  apply (simp add: load32_def store32_def)
  apply (rule bit_word_eqI)
  apply (auto simp: bit_simps)
  subgoal for n by (cases "24 \<le> n") auto
  done

lemma load32_store32_other: "i + 3 < j \<Longrightarrow> load32 (store32 d j v) i = load32 d i"
  by (simp add: load32_def store32_def)

lemma trace_client_destroy:
  "trace (client_destroy s h) =
     trace s @ (if clientDisconnected (callbacks s) then [ClientDisconnected h] else [])
       @ (case hashtable_get handle (clients s) h of
            None \<Rightarrow> [] | Some e \<Rightarrow> [DestroyClient (client e)])"
  by (simp add: client_destroy_def hashtable_remove_def hashtable_get_def Let_def
      trace_emit clients_emit split: option.split)

lemma clients_client_destroy:
  "clients (client_destroy s h) = filter (\<lambda>e. handle e \<noteq> h) (clients s)"
  by (simp add: client_destroy_def hashtable_remove_def Let_def clients_emit
      split: option.split)

lemma clients_link_recv: "clients (link_recv r s) = clients s"
  by (cases r) (simp add: link_recv_def split: option.split)

lemma trace_link_recv: "trace (link_recv r s) = trace s"
  by (cases r) (simp add: link_recv_def split: option.split)

section \<open>Broadcast\<close>

lemma fold_client_enum_broadcast:
  "fold (client_enum_broadcast lnk m f) t s =
     s\<lparr>trace := trace s @ map (\<lambda>e. SendClient (client e) m f (send_client lnk (client e) m f))
        (filter (\<lambda>e. client_is_subscribed (client e) (data m ! 8) \<noteq> 0) t)\<rparr>"
  by (induction t arbitrary: s) (simp_all add: client_enum_broadcast_def emit_def Let_def)

lemma trace_broadcast_event:
  "trace (fst (snd (gracht_server_broadcast_event lnk s message flags))) =
     trace s @
       map (\<lambda>e. SendClient (client e)
              (message\<lparr>data := store32 (data message) 4 (index message)\<rparr>) flags
              (send_client lnk (client e)
                 (message\<lparr>data := store32 (data message) 4 (index message)\<rparr>) flags))
         (filter (\<lambda>e. client_is_subscribed (client e) (data message ! 8) \<noteq> 0) (clients s))"
  by (simp add: gracht_server_broadcast_event_def hashtable_enumerate_def Let_def
      fold_client_enum_broadcast store32_other)

text \<open>
  C3. \<open>gracht_server_broadcast_event\<close> returns 0, writes the cursor to the length field
  of the header and calls \<open>send_client\<close> once for each element of the client registry
  whose subscription bit for the protocol byte (offset 8 of the message data) is set,
  and for no other element, each call with the status the link returned for it. This
  holds for every link, whatever its \<open>send_client\<close> returns: a failed send does not stop
  the enumeration.
\<close>

theorem broadcast_event_delivery:
  "gracht_server_broadcast_event lnk s message flags =
     (0,
      s\<lparr>trace := trace s @
         map (\<lambda>e. SendClient (client e)
                (message\<lparr>data := store32 (data message) 4 (index message)\<rparr>) flags
                (send_client lnk (client e)
                   (message\<lparr>data := store32 (data message) 4 (index message)\<rparr>) flags))
           (filter (\<lambda>e. bit (subscriptions (client e) ! (unat (data message ! 8) div 32))
                           (unat (data message ! 8) mod 32)) (clients s))\<rparr>,
      message\<lparr>data := store32 (data message) 4 (index message)\<rparr>)"
proof -
  let ?m = "message\<lparr>data := store32 (data message) 4 (index message)\<rparr>"
  have protocol: "data ?m ! 8 = data message ! 8"
    by (simp add: store32_other)
  have "fold (client_enum_broadcast lnk ?m flags) (clients s) s =
      s\<lparr>trace := trace s @
           map (\<lambda>e. SendClient (client e) ?m flags (send_client lnk (client e) ?m flags))
        (filter (\<lambda>e. bit (subscriptions (client e) ! (unat (data message ! 8) div 32))
                        (unat (data message ! 8) mod 32)) (clients s))\<rparr>"
    unfolding fold_client_enum_broadcast protocol client_is_subscribed_bit ..
  then show ?thesis
    by (simp add: gracht_server_broadcast_event_def hashtable_enumerate_def Let_def)
qed

theorem broadcast_event_delivery_witness:
  "fst (gracht_server_broadcast_event example_link example_server example_event 0) = 0 \<and>
   trace (fst (snd (gracht_server_broadcast_event example_link example_server example_event 0))) =
     [SendClient (client_subscribe (new_client 10) 3)
        \<lparr>data = [0, 0, 0, 0, 12, 0, 0, 0, 3, 1, 0, 0], index = 12\<rparr> 0 (- 1),
      SendClient (client_subscribe (new_client 12) 0xFF)
        \<lparr>data = [0, 0, 0, 0, 12, 0, 0, 0, 3, 1, 0, 0], index = 12\<rparr> 0 (- 1)]"
  using broadcast_event_delivery [of example_link example_server example_event 0]
  by (simp add: example_server_def g_grachtServer_def new_client_def client_subscribe_def
      example_event_def example_link_def store32_def bit_simps)

section \<open>Destroying a client\<close>

text \<open>
  C9. \<open>client_destroy\<close> invokes \<open>clientDisconnected\<close>, when it is installed, first and
  whether or not the handle has an entry in the client registry; \<open>destroy_client\<close> is
  called after it, and only for an entry that was found; the entry is removed. Both callers
  reach it so: a \<open>DISCONNECT\<close> event after \<open>gracht_aio_remove\<close>, and an unsubscribe of
  \<open>0xFF\<close> after the bitmap of the entry found has been cleared.
\<close>

theorem client_destroy_callback_first:
  "trace (client_destroy s h) =
     trace s @ (if clientDisconnected (callbacks s) then [ClientDisconnected h] else [])
       @ (case hashtable_get handle (clients s) h of
            None \<Rightarrow> [] | Some e \<Rightarrow> [DestroyClient (client e)])
   \<and> clients (client_destroy s h) = filter (\<lambda>e. handle e \<noteq> h) (clients s)
   \<and> (events AND GRACHT_AIO_EVENT_DISCONNECT k \<noteq> 0 \<longrightarrow>
        handle_async_event k invoke rx s h events =
          Some (Returns (0, client_destroy (emit (AioRemove (set_handle s) h) s) h)))
   \<and> (hashtable_get handle (clients s) (msg_client m) = Some entry \<longrightarrow>
        gracht_control_unsubscribe_invocation s m 0xFF =
          client_destroy
            (s\<lparr>clients := hashtable_set handle (clients s)
                 (entry\<lparr>client := client_unsubscribe (client entry) 0xFF\<rparr>)\<rparr>)
            (msg_client m))"
  by (simp add: trace_client_destroy clients_client_destroy handle_async_event_def
      gracht_control_unsubscribe_invocation_def)

theorem client_destroy_callback_first_witness:
  "trace (client_destroy example_server 99) = [ClientDisconnected 99]
   \<and> clients (client_destroy example_server 99) = clients example_server
   \<and> trace (client_destroy example_server 11) =
        [ClientDisconnected 11, DestroyClient (client_subscribe (new_client 11) 4)]
   \<and> map handle (clients (client_destroy example_server 11)) = [10, 12]
   \<and> handle_async_event example_consts example_invoke [] example_server 99 0x2000 =
        Some (Returns (0, client_destroy (emit (AioRemove 2 99) example_server) 99))
   \<and> trace (gracht_control_unsubscribe_invocation example_server
        \<lparr>msg_client = 11, msg_index = 0, payload = []\<rparr> 0xFF) =
        [ClientDisconnected 11, DestroyClient (new_client 11)]"
proof -
  let ?m = "\<lparr>msg_client = 11, msg_index = 0, payload = []\<rparr>"
  let ?e = "\<lparr>handle = 11, client = client_subscribe (new_client 11) 4\<rparr>"
  have g: "hashtable_get handle (clients example_server) (msg_client ?m) = Some ?e"
    by (simp add: example_server_def g_grachtServer_def hashtable_get_def)
  have d: "(0x2000 :: u32) AND GRACHT_AIO_EVENT_DISCONNECT example_consts \<noteq> 0"
    by (simp add: example_consts_def)
  note a = client_destroy_callback_first
      [of example_server 99 "0x2000" example_consts example_invoke "[]" ?m ?e]
  note b = client_destroy_callback_first
      [of example_server 11 "0x2000" example_consts example_invoke "[]" ?m ?e]
  have u: "gracht_control_unsubscribe_invocation example_server ?m 0xFF =
          client_destroy
            (example_server\<lparr>clients := hashtable_set handle (clients example_server)
                 (?e\<lparr>client := client_unsubscribe (client ?e) 0xFF\<rparr>)\<rparr>) 11"
    using b g by simp
  have t: "trace (gracht_control_unsubscribe_invocation example_server ?m 0xFF) =
        [ClientDisconnected 11, DestroyClient (new_client 11)]"
    unfolding u
    by (simp add: trace_client_destroy example_server_def g_grachtServer_def hashtable_get_def
        client_unsubscribe_def client_subscribe_def new_client_def)
  show ?thesis
    using a b d t
    by (simp add: example_server_def g_grachtServer_def example_consts_def hashtable_get_def)
qed

section \<open>Unsubscribing from everything\<close>

text \<open>
  C2. For a handle that has a client record, \<open>gracht_control_unsubscribe_invocation\<close>
  with protocol id \<open>0xFF\<close> clears the whole bitmap of the record (the record handed to
  \<open>destroy_client\<close> has 8 zero words) and runs \<open>client_destroy\<close>: the callback, when
  installed, then \<open>destroy_client\<close>. Afterwards the registry holds no element with this
  handle, and a broadcast from the state reached sends only to elements of the old
  registry with another handle.
\<close>

theorem unsubscribe_all_destroys_client:
  assumes "hashtable_get handle (clients s) (msg_client message) = Some entry"
  shows
    "clients (gracht_control_unsubscribe_invocation s message 0xFF) =
       filter (\<lambda>e. handle e \<noteq> msg_client message) (clients s)
     \<and> hashtable_get handle
         (clients (gracht_control_unsubscribe_invocation s message 0xFF)) (msg_client message) = None
     \<and> trace (gracht_control_unsubscribe_invocation s message 0xFF) =
         trace s
           @ (if clientDisconnected (callbacks s) then [ClientDisconnected (msg_client message)] else [])
           @ [DestroyClient ((client entry)\<lparr>subscriptions := replicate 8 0\<rparr>)]
     \<and> trace (fst (snd (gracht_server_broadcast_event lnk
           (gracht_control_unsubscribe_invocation s message 0xFF) event flags))) =
         trace (gracht_control_unsubscribe_invocation s message 0xFF)
           @ map (\<lambda>e. SendClient (client e)
                    (event\<lparr>data := store32 (data event) 4 (index event)\<rparr>) flags
                    (send_client lnk (client e)
                       (event\<lparr>data := store32 (data event) 4 (index event)\<rparr>) flags))
               (filter (\<lambda>e. bit (subscriptions (client e) ! (unat (data event ! 8) div 32))
                               (unat (data event ! 8) mod 32))
                  (filter (\<lambda>e. handle e \<noteq> msg_client message) (clients s)))"
proof -
  let ?h = "msg_client message"
  let ?e = "entry\<lparr>client := client_unsubscribe (client entry) 0xFF\<rparr>"
  let ?s1 = "s\<lparr>clients := hashtable_set handle (clients s) ?e\<rparr>"
  let ?s' = "gracht_control_unsubscribe_invocation s message 0xFF"
  have key: "handle ?e = ?h"
    using hashtable_get_key [OF assms] by simp
  have s': "?s' = client_destroy ?s1 ?h"
    using assms by (simp add: gracht_control_unsubscribe_invocation_def)
  have c: "clients ?s' = filter (\<lambda>e. handle e \<noteq> ?h) (clients s)"
    using filter_hashtable_set [of handle ?e "clients s"] key
    by (simp add: s' clients_client_destroy)
  have g: "hashtable_get handle (clients ?s1) ?h = Some ?e"
    using find_hashtable_set [of handle ?e "clients s"] key
    by (simp add: hashtable_get_def)
  have t: "trace ?s' = trace s
      @ (if clientDisconnected (callbacks s) then [ClientDisconnected ?h] else [])
      @ [DestroyClient ((client entry)\<lparr>subscriptions := replicate 8 0\<rparr>)]"
    using g by (simp add: s' trace_client_destroy client_unsubscribe_def)
  have b: "trace (fst (snd (gracht_server_broadcast_event lnk ?s' event flags))) =
      trace ?s' @ map (\<lambda>e. SendClient (client e)
                    (event\<lparr>data := store32 (data event) 4 (index event)\<rparr>) flags
                    (send_client lnk (client e)
                       (event\<lparr>data := store32 (data event) 4 (index event)\<rparr>) flags))
               (filter (\<lambda>e. bit (subscriptions (client e) ! (unat (data event ! 8) div 32))
                               (unat (data event ! 8) mod 32))
                  (filter (\<lambda>e. handle e \<noteq> ?h) (clients s)))"
    unfolding trace_broadcast_event c [symmetric] client_is_subscribed_bit ..
  show ?thesis
    using c t b by (simp add: hashtable_get_filter)
qed

theorem unsubscribe_all_destroys_client_witness:
  "map handle (clients (gracht_control_unsubscribe_invocation example_server
      \<lparr>msg_client = 12, msg_index = 0, payload = []\<rparr> 0xFF)) = [10, 11]
   \<and> trace (gracht_control_unsubscribe_invocation example_server
      \<lparr>msg_client = 12, msg_index = 0, payload = []\<rparr> 0xFF) =
        [ClientDisconnected 12, DestroyClient (new_client 12)]
   \<and> trace (fst (snd (gracht_server_broadcast_event example_link
        (gracht_control_unsubscribe_invocation example_server
           \<lparr>msg_client = 12, msg_index = 0, payload = []\<rparr> 0xFF) example_event 0))) =
        [ClientDisconnected 12, DestroyClient (new_client 12),
         SendClient (client_subscribe (new_client 10) 3)
           \<lparr>data = [0, 0, 0, 0, 12, 0, 0, 0, 3, 1, 0, 0], index = 12\<rparr> 0 (- 1)]"
proof -
  let ?m = "\<lparr>msg_client = 12, msg_index = 0, payload = []\<rparr>"
  let ?e = "\<lparr>handle = 12, client = client_subscribe (new_client 12) 0xFF\<rparr>"
  have g: "hashtable_get handle (clients example_server) (msg_client ?m) = Some ?e"
    by (simp add: example_server_def g_grachtServer_def hashtable_get_def)
  show ?thesis
    using unsubscribe_all_destroys_client [OF g, of example_link example_event 0]
    by (simp add: example_server_def g_grachtServer_def new_client_def client_subscribe_def
        example_event_def example_link_def store32_def bit_simps)
qed

section \<open>Events on a handle the server does not know\<close>

text \<open>
  C10. For a handle that is not the listening handle, not the datagram handle and not a
  key of the client registry, \<open>gracht_server_handle_event\<close> with an event mask without
  the \<open>DISCONNECT\<close> bit (an \<open>IN\<close> mask or the empty mask) returns 0 and leaves the
  whole server state as it was: registries, buffers and the calls made. No receive is
  consumed, so the loop is not entered.
\<close>

theorem handle_event_unknown_handle:
  assumes "h \<noteq> listen_handle s" and "h \<noteq> dgram_handle s"
    and "h \<notin> set (map handle (clients s))"
    and "events AND GRACHT_AIO_EVENT_DISCONNECT k = 0"
    and "events AND GRACHT_AIO_EVENT_IN k \<noteq> 0 \<or> events = 0"
  shows "gracht_server_handle_event k lnk invoke rx s h events = Some (Returns (0, s))"
  using assms
  by (simp add: gracht_server_handle_event_def handle_async_event_def hashtable_get_None)

theorem handle_event_unknown_handle_witness:
  "gracht_server_handle_event example_consts example_link example_invoke [] example_server 99 0x1
     = Some (Returns (0, example_server))
   \<and> gracht_server_handle_event example_consts example_link example_invoke [] example_server 99 0
     = Some (Returns (0, example_server))"
proof -
  have a: "99 \<noteq> listen_handle example_server" "99 \<noteq> dgram_handle example_server"
    "99 \<notin> set (map handle (clients example_server))"
    by (simp_all add: example_server_def g_grachtServer_def)
  have b: "(0x1 :: u32) AND GRACHT_AIO_EVENT_DISCONNECT example_consts = 0"
    "(0 :: u32) AND GRACHT_AIO_EVENT_DISCONNECT example_consts = 0"
    by (simp_all add: example_consts_def)
  have c: "(0x1 :: u32) AND GRACHT_AIO_EVENT_IN example_consts \<noteq> 0 \<or> (0x1 :: u32) = 0"
    "(0 :: u32) AND GRACHT_AIO_EVENT_IN example_consts \<noteq> 0 \<or> (0 :: u32) = 0"
    by (simp_all add: example_consts_def)
  show ?thesis
    using handle_event_unknown_handle [OF a b(1) c(1)]
      handle_event_unknown_handle [OF a b(2) c(2)]
    by simp
qed

section \<open>Subscribing from a handle without a client record\<close>

lemma subscribe_unregistered:
  assumes "hashtable_get handle (clients s) (msg_client m) = None"
    and "create_client lnk m = (0, cl)"
  shows "gracht_control_subscribe_invocation lnk s m p =
     Crash ((if clientConnected (callbacks s) then emit (ClientConnected (msg_client m)) else id)
        ((emit (CreateClient m) s)
           \<lparr>clients := hashtable_set handle (clients s) \<lparr>handle = msg_client m, client = cl\<rparr>\<rparr>))"
  using assms
  by (simp add: gracht_control_subscribe_invocation_def Let_def clients_emit emit_def)

text \<open>
  C1. The subscribe request of handle 20, which has no client record, for protocol 2:
  the client is created through \<open>create_client\<close>, inserted into the registry and
  announced through \<open>clientConnected\<close>; then the call dereferences the null \<open>entry\<close>. The
  record in the registry is the one \<open>create_client\<close> returned, with no subscription bit
  set.
\<close>

theorem subscribe_unregistered_crash:
  "gracht_control_subscribe_invocation example_link example_server example_subscribe 2 =
     Crash (example_server
       \<lparr>clients := clients example_server @ [\<lparr>handle = 20, client = new_client 20\<rparr>],
        trace := [CreateClient example_subscribe, ClientConnected 20]\<rparr>)
   \<and> client_is_subscribed (new_client 20) 2 = 0"
  by (simp add: gracht_control_subscribe_invocation_def Let_def emit_def example_link_def
      example_server_def g_grachtServer_def example_subscribe_def hashtable_get_def
      client_is_subscribed_def new_client_def)

section \<open>The id of a response\<close>

lemma respond_id_cursor_zero:
  assumes "msg_index ctx = 0" and "4 \<le> length (data msg)"
  shows "\<exists>st s' msg'. gracht_server_respond k lnk s (Some ctx) (Some msg) = (st, s', Some msg')
     \<and> load32 (data msg') 0 = fst (server_invoke_action_header ctx)"
  using assms
  by (auto simp: gracht_server_respond_def server_invoke_action_header_def Let_def
      load32_store32 load32_store32_other split: option.split)

text \<open>
  C4. The request \<open>example_request\<close> has its header at parse cursor 4, and
  \<open>server_invoke_action\<close> reads the id 7 there. The action found for it answers through
  \<open>gracht_server_respond\<close>, and the response that leaves through the link carries in its
  id field the first four bytes of the payload, \<open>0xDDCCBBAA\<close>, not 7.
\<close>

theorem respond_id_from_payload_start:
  "fst (server_invoke_action_header example_request) = 7
   \<and> server_invoke_action example_consts respond_action
        (example_server\<lparr>protocols := [example_protocol]\<rparr>) example_request =
      Returns (example_server
        \<lparr>protocols := [example_protocol],
         trace := [Respond example_request
           \<lparr>data = [0xAA, 0xBB, 0xCC, 0xDD, 14, 0, 0, 0, 5, 1, 0, 0, 0x6F, 0x6B], index = 14\<rparr>]\<rparr>)
   \<and> load32 [0xAA, 0xBB, 0xCC, 0xDD, 14, 0, 0, 0, 5, 1, 0, 0, 0x6F, 0x6B] 0 = 0xDDCCBBAA"
  by (simp add: server_invoke_action_header_def server_invoke_action_def example_request_def
      load32_def store32_def get_protocol_action_def hashtable_get_def example_protocol_def
      respond_action_def gracht_server_respond_def example_response_def example_server_def
      g_grachtServer_def emit_def Let_def example_consts_def)

section \<open>Receiving on the client link\<close>

lemma recv_packet_flags:
  "link_type (config lm) = gracht_link_packet_based \<Longrightarrow>
     \<exists>f. result_calls (socket_link_recv k os incoming lm flags) =
            [SysRecvmsg (iod lm) (ucast (GRACHT_MAX_MESSAGE_SIZE k)) f]
          \<and> f AND MSG_WAITALL k = MSG_WAITALL k"
  by (simp add: socket_link_recv_def socket_link_recv_packet_def Let_def
      bit.conj_disj_distrib2)

text \<open>
  C5. A receive on a packet-based link, blocking (flags \<open>GRACHT_WAIT_BLOCK\<close>) or not
  (flags 0): \<open>recvmsg\<close> is called with \<open>MSG_WAITALL\<close> (\<open>0x100\<close>) among its flags.
\<close>

theorem recv_packet_sets_waitall:
  "socket_link_recv example_socket_consts (\<lambda>c. 12) (example_message 12)
      (example_manager gracht_link_packet_based) 0x1 =
     Ret 0 None [SysRecvmsg 3 512 0x100] (Some (example_message 12))
   \<and> socket_link_recv example_socket_consts (\<lambda>c. 12) (example_message 12)
      (example_manager gracht_link_packet_based) 0 =
     Ret 0 None [SysRecvmsg 3 512 0x140] (Some (example_message 12))
   \<and> MSG_WAITALL example_socket_consts = 0x100"
  by (simp add: socket_link_recv_def socket_link_recv_packet_def Let_def
      example_socket_consts_def example_manager_def)

text \<open>
  A stream read that returns 0 bytes, and the server's handling of a receive that failed
  so: the client link reports \<open>ENODATA\<close>; on the server the client with handle 11 stays in
  the registry and neither \<open>clientDisconnected\<close> nor \<open>destroy_client\<close> is called.
\<close>

theorem stream_read_of_nothing_keeps_client:
  "socket_link_recv_stream example_socket_consts (\<lambda>c. 0) (example_message 12)
      (example_manager gracht_link_stream_based) 0x140 =
     Ret (- 1) (Some ENODATA) [SysRecv 3 12 0x140] None
   \<and> handle_async_event example_consts example_invoke
        [(- 1, Some ENODATA, \<lparr>msg_client = 11, msg_index = 0, payload = []\<rparr>)]
        example_server 11 0x1 =
      Some (Returns (0, example_server\<lparr>errno := ENODATA\<rparr>))
   \<and> map handle (clients (example_server\<lparr>errno := ENODATA\<rparr>)) = [10, 11, 12]
   \<and> trace (example_server\<lparr>errno := ENODATA\<rparr>) = []"
  by (simp add: socket_link_recv_stream_def example_socket_consts_def example_manager_def
      handle_async_event_def example_consts_def example_server_def g_grachtServer_def
      hashtable_get_def link_recv_def get_incoming_buffer_def put_message_def)

lemma errno_link_recv: "fst (snd r) = Some e \<Longrightarrow> errno (link_recv r s) = e"
  by (cases r) (simp add: link_recv_def)

lemma failed_receive_step:
  "clients (put_message sops (link_recv r (get_incoming_buffer sops s))) = clients s
   \<and> trace (put_message sops (link_recv r (get_incoming_buffer sops s))) =
       trace s @ (case sops of g_stOperations \<Rightarrow> []
                  | g_mtOperations \<Rightarrow> [ArenaAllocate, ArenaFree])
   \<and> (fst (snd r) = Some e \<longrightarrow>
         errno (put_message sops (link_recv r (get_incoming_buffer sops s))) = e)"
  by (cases sops)
     (simp_all add: put_message_def get_incoming_buffer_def clients_link_recv trace_link_recv
        errno_link_recv clients_emit trace_emit emit_def)

lemma loop_returns_by_failed_receive:
  "handle_async_event_loop k invoke rx s = Some (Returns s') \<Longrightarrow>
     \<exists>t sops r. r \<in> set rx \<and> fst r \<noteq> 0 \<and> ops t = Some sops
       \<and> s' = put_message sops (link_recv r (get_incoming_buffer sops t))"
proof (induction rx arbitrary: s)
  case Nil
  then show ?case by simp
next
  case (Cons r rx)
  show ?case
  proof (cases "ops s")
    case None
    with Cons.prems show ?thesis by simp
  next
    case (Some sops)
    show ?thesis
    proof (cases "fst r \<noteq> 0")
      case True
      with Cons.prems Some
      have "s' = put_message sops (link_recv r (get_incoming_buffer sops s))"
        by (simp add: Let_def)
      with True Some show ?thesis
        by (intro exI [of _ s] exI [of _ sops] exI [of _ r]) simp
    next
      case False
      show ?thesis
      proof (cases "dispatch k invoke sops (link_recv r (get_incoming_buffer sops s)) (snd (snd r))")
        case (Returns s2)
        with Cons.prems Some False
        have "handle_async_event_loop k invoke rx s2 = Some (Returns s')"
          by (simp add: Let_def)
        from Cons.IH [OF this] obtain t sops' r'
          where "r' \<in> set rx" "fst r' \<noteq> 0" "ops t = Some sops'"
            "s' = put_message sops' (link_recv r' (get_incoming_buffer sops' t))"
          by blast
        then show ?thesis
          by (intro exI [of _ t] exI [of _ sops'] exI [of _ r']) simp
      next
        case (Crash c)
        with Cons.prems Some False show ?thesis by (simp add: Let_def)
      qed
    qed
  qed
qed

lemma handle_async_event_drain:
  assumes "hashtable_get handle (clients s) h = Some entry"
    and "events AND GRACHT_AIO_EVENT_DISCONNECT k = 0"
    and "events AND GRACHT_AIO_EVENT_IN k \<noteq> 0 \<or> events = 0"
  shows "handle_async_event k invoke rx s h events =
     (case handle_async_event_loop k invoke rx s of
        None \<Rightarrow> None
      | Some (Crash c) \<Rightarrow> Some (Crash c)
      | Some (Returns s') \<Rightarrow> Some (Returns (0, s')))"
  using assms by (simp add: handle_async_event_def)

text \<open>
  C6, as the code has it. A stream receive whose header read returns 0 bytes fails with
  status -1 and \<open>ENODATA\<close>, after that one read. A receive that fails with \<open>ENODATA\<close> ends
  the drain loop of \<open>handle_async_event\<close>, in whatever state and at whichever iteration it
  happens: the buffer is given back and the loop returns, and this step leaves the client
  registry as it was and makes no call but those for the buffer (none in single-threaded
  mode), so neither \<open>clientDisconnected\<close> nor \<open>destroy_client\<close>. For a registered client
  and a mask without \<open>DISCONNECT\<close>, \<open>handle_async_event\<close> is this loop and returns 0 when
  the loop returns. When every failed receive is one with \<open>ENODATA\<close>, every return of the
  loop is such a step.
\<close>

theorem stream_read_of_nothing_is_no_data:
  "(sizeof_gracht_message c \<noteq> 0
      \<and> os (SysRecv (iod linkManager) (sizeof_gracht_message c) flags) = 0 \<longrightarrow>
      socket_link_recv_stream c os incoming linkManager flags =
        Ret (- 1) (Some ENODATA) [SysRecv (iod linkManager) (sizeof_gracht_message c) flags] None)
   \<and> (ops s = Some sops \<and> fst r \<noteq> 0 \<and> fst (snd r) = Some ENODATA \<longrightarrow>
      handle_async_event_loop k invoke (r # rx) s =
        Some (Returns (put_message sops (link_recv r (get_incoming_buffer sops s))))
      \<and> clients (put_message sops (link_recv r (get_incoming_buffer sops s))) = clients s
      \<and> trace (put_message sops (link_recv r (get_incoming_buffer sops s))) =
          trace s @ (case sops of g_stOperations \<Rightarrow> []
                     | g_mtOperations \<Rightarrow> [ArenaAllocate, ArenaFree])
      \<and> errno (put_message sops (link_recv r (get_incoming_buffer sops s))) = ENODATA)
   \<and> (hashtable_get handle (clients s) h = Some entry
        \<and> events AND GRACHT_AIO_EVENT_DISCONNECT k = 0
        \<and> (events AND GRACHT_AIO_EVENT_IN k \<noteq> 0 \<or> events = 0) \<longrightarrow>
      handle_async_event k invoke rx s h events =
        (case handle_async_event_loop k invoke rx s of
           None \<Rightarrow> None
         | Some (Crash c) \<Rightarrow> Some (Crash c)
         | Some (Returns s') \<Rightarrow> Some (Returns (0, s'))))
   \<and> (hashtable_get handle (clients s) h = Some entry \<and> ops s = Some sops
        \<and> events AND GRACHT_AIO_EVENT_DISCONNECT k = 0
        \<and> (events AND GRACHT_AIO_EVENT_IN k \<noteq> 0 \<or> events = 0)
        \<and> fst r \<noteq> 0 \<and> fst (snd r) = Some ENODATA \<longrightarrow>
      handle_async_event k invoke (r # rx) s h events =
        Some (Returns (0, put_message sops (link_recv r (get_incoming_buffer sops s)))))
   \<and> (handle_async_event_loop k invoke rx s = Some (Returns s')
        \<and> (\<forall>r \<in> set rx. fst r \<noteq> 0 \<longrightarrow> fst (snd r) = Some ENODATA) \<longrightarrow>
      (\<exists>t tops r. r \<in> set rx \<and> fst r \<noteq> 0 \<and> ops t = Some tops
         \<and> s' = put_message tops (link_recv r (get_incoming_buffer tops t))
         \<and> clients s' = clients t
         \<and> trace s' = trace t @ (case tops of g_stOperations \<Rightarrow> []
                                   | g_mtOperations \<Rightarrow> [ArenaAllocate, ArenaFree])
         \<and> errno s' = ENODATA))"
proof (intro conjI impI)
  assume "sizeof_gracht_message c \<noteq> 0
      \<and> os (SysRecv (iod linkManager) (sizeof_gracht_message c) flags) = 0"
  then show "socket_link_recv_stream c os incoming linkManager flags =
        Ret (- 1) (Some ENODATA) [SysRecv (iod linkManager) (sizeof_gracht_message c) flags] None"
    by (auto simp: socket_link_recv_stream_def Let_def)
next
  assume a: "ops s = Some sops \<and> fst r \<noteq> 0 \<and> fst (snd r) = Some ENODATA"
  then show "handle_async_event_loop k invoke (r # rx) s =
        Some (Returns (put_message sops (link_recv r (get_incoming_buffer sops s))))"
    by (simp add: Let_def)
  show "clients (put_message sops (link_recv r (get_incoming_buffer sops s))) = clients s"
    "trace (put_message sops (link_recv r (get_incoming_buffer sops s))) =
          trace s @ (case sops of g_stOperations \<Rightarrow> []
                     | g_mtOperations \<Rightarrow> [ArenaAllocate, ArenaFree])"
    "errno (put_message sops (link_recv r (get_incoming_buffer sops s))) = ENODATA"
    using a failed_receive_step [of sops r s ENODATA] by simp_all
next
  assume "hashtable_get handle (clients s) h = Some entry
        \<and> events AND GRACHT_AIO_EVENT_DISCONNECT k = 0
        \<and> (events AND GRACHT_AIO_EVENT_IN k \<noteq> 0 \<or> events = 0)"
  then show "handle_async_event k invoke rx s h events =
        (case handle_async_event_loop k invoke rx s of
           None \<Rightarrow> None
         | Some (Crash c) \<Rightarrow> Some (Crash c)
         | Some (Returns s') \<Rightarrow> Some (Returns (0, s')))"
    by (intro handle_async_event_drain) simp_all
next
  assume a: "hashtable_get handle (clients s) h = Some entry \<and> ops s = Some sops
        \<and> events AND GRACHT_AIO_EVENT_DISCONNECT k = 0
        \<and> (events AND GRACHT_AIO_EVENT_IN k \<noteq> 0 \<or> events = 0)
        \<and> fst r \<noteq> 0 \<and> fst (snd r) = Some ENODATA"
  then have "handle_async_event k invoke (r # rx) s h events =
        (case handle_async_event_loop k invoke (r # rx) s of
           None \<Rightarrow> None
         | Some (Crash c) \<Rightarrow> Some (Crash c)
         | Some (Returns s') \<Rightarrow> Some (Returns (0, s')))"
    by (intro handle_async_event_drain) simp_all
  with a show "handle_async_event k invoke (r # rx) s h events =
        Some (Returns (0, put_message sops (link_recv r (get_incoming_buffer sops s))))"
    by (simp add: Let_def)
next
  assume a: "handle_async_event_loop k invoke rx s = Some (Returns s')
        \<and> (\<forall>r \<in> set rx. fst r \<noteq> 0 \<longrightarrow> fst (snd r) = Some ENODATA)"
  then obtain t tops r where r: "r \<in> set rx" "fst r \<noteq> 0" "ops t = Some tops"
      "s' = put_message tops (link_recv r (get_incoming_buffer tops t))"
    using loop_returns_by_failed_receive [of k invoke rx s s'] by blast
  with a have e: "fst (snd r) = Some ENODATA" by blast
  show "\<exists>t tops r. r \<in> set rx \<and> fst r \<noteq> 0 \<and> ops t = Some tops
         \<and> s' = put_message tops (link_recv r (get_incoming_buffer tops t))
         \<and> clients s' = clients t
         \<and> trace s' = trace t @ (case tops of g_stOperations \<Rightarrow> []
                                   | g_mtOperations \<Rightarrow> [ArenaAllocate, ArenaFree])
         \<and> errno s' = ENODATA"
    using r e failed_receive_step [of tops r t ENODATA]
    by (intro exI [of _ t] exI [of _ tops] exI [of _ r]) simp
qed

theorem stream_read_of_nothing_is_no_data_witness:
  "socket_link_recv_stream example_socket_consts (\<lambda>c. 0) (example_message 12)
      (example_manager gracht_link_stream_based) 0x140 =
     Ret (- 1) (Some ENODATA) [SysRecv 3 12 0x140] None
   \<and> handle_async_event example_consts example_invoke
        [(- 1, Some ENODATA, \<lparr>msg_client = 11, msg_index = 0, payload = []\<rparr>)]
        example_server 11 0x1 =
      Some (Returns (0, example_server\<lparr>errno := ENODATA\<rparr>))
   \<and> handle_async_event example_consts example_invoke
        [(0, None, example_call),
         (- 1, Some ENODATA, \<lparr>msg_client = 11, msg_index = 0, payload = []\<rparr>)]
        example_server 11 0x1 =
      Some (Returns (0, example_server\<lparr>errno := ENODATA\<rparr>))
   \<and> clients (example_server\<lparr>errno := ENODATA\<rparr>) = clients example_server
   \<and> trace (example_server\<lparr>errno := ENODATA\<rparr>) = []
   \<and> (\<exists>t tops r. fst r \<noteq> 0 \<and> ops t = Some tops
         \<and> example_server\<lparr>errno := ENODATA\<rparr> =
             put_message tops (link_recv r (get_incoming_buffer tops t))
         \<and> clients (example_server\<lparr>errno := ENODATA\<rparr>) = clients t)"
proof -
  let ?c = example_socket_consts and ?lm = "example_manager gracht_link_stream_based"
  let ?r = "(- 1 :: int, Some ENODATA, \<lparr>msg_client = 11, msg_index = 0, payload = []\<rparr>)"
  let ?ok = "(0 :: int, None :: errno_t option, example_call)"
  let ?e = "\<lparr>handle = 11, client = client_subscribe (new_client 11) 4\<rparr>"
  let ?s' = "example_server\<lparr>errno := ENODATA\<rparr>"
  note th = stream_read_of_nothing_is_no_data [where c = ?c and os = "\<lambda>c. 0"
        and linkManager = ?lm and flags = "0x140" and incoming = "example_message 12"
        and s = example_server and h = 11 and entry = ?e and sops = g_stOperations
        and events = "0x1" and k = example_consts and r = ?r and invoke = example_invoke
        and s' = ?s']
  have a: "sizeof_gracht_message ?c \<noteq> 0
      \<and> (\<lambda>c. 0) (SysRecv (iod ?lm) (sizeof_gracht_message ?c) 0x140) = (0 :: int)"
    by (simp add: example_socket_consts_def)
  have b: "hashtable_get handle (clients example_server) 11 = Some ?e"
    "ops example_server = Some g_stOperations"
    "(0x1 :: u32) AND GRACHT_AIO_EVENT_DISCONNECT example_consts = 0"
    "(0x1 :: u32) AND GRACHT_AIO_EVENT_IN example_consts \<noteq> 0 \<or> (0x1 :: u32) = 0"
    "fst ?r \<noteq> 0" "fst (snd ?r) = Some ENODATA"
    by (simp_all add: example_server_def g_grachtServer_def hashtable_get_def example_consts_def)
  have v: "iod ?lm = 3" "sizeof_gracht_message ?c = 12"
    by (simp_all add: example_manager_def example_socket_consts_def)
  have step: "put_message g_stOperations (link_recv ?r (get_incoming_buffer g_stOperations
      example_server)) = ?s'"
    by (simp add: put_message_def link_recv_def get_incoming_buffer_def)
  have loop2: "handle_async_event_loop example_consts example_invoke [?ok, ?r] example_server =
      Some (Returns ?s')"
    by (simp add: example_server_def g_grachtServer_def Let_def dispatch_def
        server_invoke_action_def server_invoke_action_header_def example_call_def
        get_protocol_action_def hashtable_get_def example_consts_def example_invoke_def
        link_recv_def get_incoming_buffer_def put_message_def load32_def)
  have fails: "\<forall>r \<in> set [?ok, ?r]. fst r \<noteq> 0 \<longrightarrow> fst (snd r) = Some ENODATA"
    by simp
  have c1: "socket_link_recv_stream ?c (\<lambda>c. 0) (example_message 12) ?lm 0x140 =
     Ret (- 1) (Some ENODATA) [SysRecv 3 12 0x140] None"
    using th [where rx = "[]"] a unfolding v by blast
  have c2: "handle_async_event example_consts example_invoke [?r] example_server 11 0x1 =
      Some (Returns (0, ?s'))"
    using th [where rx = "[]"] b unfolding step by blast
  have c3: "handle_async_event example_consts example_invoke [?ok, ?r] example_server 11 0x1 =
      Some (Returns (0, ?s'))"
  proof -
    have "handle_async_event example_consts example_invoke [?ok, ?r] example_server 11 0x1 =
        (case handle_async_event_loop example_consts example_invoke [?ok, ?r] example_server of
           None \<Rightarrow> None
         | Some (Crash c) \<Rightarrow> Some (Crash c)
         | Some (Returns s') \<Rightarrow> Some (Returns (0, s')))"
      using th [where rx = "[?ok, ?r]"] b(1,3,4) by blast
    then show ?thesis
      unfolding loop2 by simp
  qed
  have c4: "clients ?s' = clients example_server" "trace ?s' = []"
    by (simp_all add: example_server_def g_grachtServer_def)
  have c5: "\<exists>t tops r. fst r \<noteq> 0 \<and> ops t = Some tops
         \<and> ?s' = put_message tops (link_recv r (get_incoming_buffer tops t))
         \<and> clients ?s' = clients t"
    using th [where rx = "[?ok, ?r]"] loop2 fails by blast
  show ?thesis
    using c1 c2 c3 c4 c5 by blast
qed

section \<open>The length check of a send\<close>

lemma send_packet_errno: "result_errno (socket_link_send_packet k os lm m) \<noteq> Some E2BIG"
  by (simp add: socket_link_send_packet_def Let_def split: option.split)

lemma send_stream_errno: "result_errno (socket_link_send_stream k os lm m) \<noteq> Some E2BIG"
  by (simp add: socket_link_send_stream_def Let_def split: option.split)

text \<open>
  C7. A message whose length field equals \<open>GRACHT_MAX_MESSAGE_SIZE\<close> does not fail with
  \<open>E2BIG\<close>; on a stream or packet link, with no shared-memory parameter and all bytes
  taken by \<open>sendmsg\<close> for the vector that link builds, the send returns
  \<open>GRACHT_MESSAGE_INPROGRESS\<close>. A message whose
  length field is larger by one or more fails with \<open>GRACHT_MESSAGE_ERROR\<close> and \<open>E2BIG\<close>
  without a system call.
\<close>

theorem send_length_check:
  "(msg_length (header m) = GRACHT_MAX_MESSAGE_SIZE k \<longrightarrow>
      result_errno (socket_link_send k os lm m) \<noteq> Some E2BIG)
   \<and> (msg_length (header m) = GRACHT_MAX_MESSAGE_SIZE k
        \<and> (link_type (config lm) = gracht_link_stream_based
               \<and> prepare_parameters_stream
                    (map (params m) [0..<unat (param_in (header m))]) = Some iov
             \<or> link_type (config lm) = gracht_link_packet_based
               \<and> prepare_parameters_packet
                    (map (params m) [0..<unat (param_in (header m))]) = Some iov)
        \<and> call = SysSendmsg (iod lm)
             (\<lparr>iov_base = MessagePtr,
               iov_len = sizeof_gracht_message k
                 + of_nat (unat (param_in (header m)) + unat (param_out (header m)))
                   * sizeof_gracht_param k\<rparr> # iov) 0
        \<and> os call = uint (GRACHT_MAX_MESSAGE_SIZE k) \<longrightarrow>
      socket_link_send k os lm m = Ret (GRACHT_MESSAGE_INPROGRESS k) None [call] None)
   \<and> (unat (GRACHT_MAX_MESSAGE_SIZE k) + 1 \<le> unat (msg_length (header m)) \<longrightarrow>
      socket_link_send k os lm m = Ret (GRACHT_MESSAGE_ERROR k) (Some E2BIG) [] None)"
proof (intro conjI impI)
  assume "msg_length (header m) = GRACHT_MAX_MESSAGE_SIZE k"
  then show "result_errno (socket_link_send k os lm m) \<noteq> Some E2BIG"
    by (simp add: socket_link_send_def send_packet_errno send_stream_errno)
next
  assume "msg_length (header m) = GRACHT_MAX_MESSAGE_SIZE k
        \<and> (link_type (config lm) = gracht_link_stream_based
               \<and> prepare_parameters_stream
                    (map (params m) [0..<unat (param_in (header m))]) = Some iov
             \<or> link_type (config lm) = gracht_link_packet_based
               \<and> prepare_parameters_packet
                    (map (params m) [0..<unat (param_in (header m))]) = Some iov)
        \<and> call = SysSendmsg (iod lm)
             (\<lparr>iov_base = MessagePtr,
               iov_len = sizeof_gracht_message k
                 + of_nat (unat (param_in (header m)) + unat (param_out (header m)))
                   * sizeof_gracht_param k\<rparr> # iov) 0
        \<and> os call = uint (GRACHT_MAX_MESSAGE_SIZE k)"
  then show "socket_link_send k os lm m = Ret (GRACHT_MESSAGE_INPROGRESS k) None [call] None"
    by (auto simp: socket_link_send_def socket_link_send_packet_def socket_link_send_stream_def
        Let_def)
next
  assume "unat (GRACHT_MAX_MESSAGE_SIZE k) + 1 \<le> unat (msg_length (header m))"
  then have "GRACHT_MAX_MESSAGE_SIZE k < msg_length (header m)"
    by (simp add: word_less_nat_alt)
  then show "socket_link_send k os lm m = Ret (GRACHT_MESSAGE_ERROR k) (Some E2BIG) [] None"
    by (simp add: socket_link_send_def)
qed

theorem send_length_check_witness:
  "socket_link_send example_socket_consts (\<lambda>c. 512) (example_manager gracht_link_packet_based)
      (example_message 512) =
     Ret 1 None [SysSendmsg 3 [\<lparr>iov_base = MessagePtr, iov_len = 12\<rparr>] 0] None
   \<and> socket_link_send example_socket_consts (\<lambda>c. 512) (example_manager gracht_link_stream_based)
      (example_message 512) =
     Ret 1 None [SysSendmsg 3 [\<lparr>iov_base = MessagePtr, iov_len = 12\<rparr>] 0] None
   \<and> result_errno (socket_link_send example_socket_consts (\<lambda>c. 512)
        (example_manager gracht_link_packet_based) (example_message 512)) \<noteq> Some E2BIG
   \<and> socket_link_send example_socket_consts (\<lambda>c. 513) (example_manager gracht_link_packet_based)
      (example_message 513) = Ret (- 1) (Some E2BIG) [] None"
proof -
  let ?k = example_socket_consts
  let ?lp = "example_manager gracht_link_packet_based"
  let ?ls = "example_manager gracht_link_stream_based"
  let ?m = "example_message 512"
  let ?call = "SysSendmsg 3 [\<lparr>iov_base = MessagePtr, iov_len = 12\<rparr>] 0"
  have len: "msg_length (header ?m) = GRACHT_MAX_MESSAGE_SIZE ?k"
    by (simp add: example_message_def example_socket_consts_def)
  have vec: "prepare_parameters_packet (map (params ?m) [0..<unat (param_in (header ?m))]) = Some []"
    "prepare_parameters_stream (map (params ?m) [0..<unat (param_in (header ?m))]) = Some []"
    by (simp_all add: example_message_def)
  have call: "?call = SysSendmsg (iod ?lp)
       (\<lparr>iov_base = MessagePtr,
         iov_len = sizeof_gracht_message ?k
           + of_nat (unat (param_in (header ?m)) + unat (param_out (header ?m)))
             * sizeof_gracht_param ?k\<rparr> # []) 0"
    "?call = SysSendmsg (iod ?ls)
       (\<lparr>iov_base = MessagePtr,
         iov_len = sizeof_gracht_message ?k
           + of_nat (unat (param_in (header ?m)) + unat (param_out (header ?m)))
             * sizeof_gracht_param ?k\<rparr> # []) 0"
    by (simp_all add: example_message_def example_socket_consts_def example_manager_def)
  have snt: "(\<lambda>c. 512) ?call = uint (GRACHT_MAX_MESSAGE_SIZE ?k)"
    by (simp add: example_socket_consts_def)
  have lty: "link_type (config ?lp) = gracht_link_packet_based"
    "link_type (config ?ls) = gracht_link_stream_based"
    by (simp_all add: example_manager_def)
  have b: "unat (GRACHT_MAX_MESSAGE_SIZE ?k) + 1 \<le> unat (msg_length (header (example_message 513)))"
    by (simp add: example_message_def example_socket_consts_def)
  have c: "GRACHT_MESSAGE_INPROGRESS ?k = 1" "GRACHT_MESSAGE_ERROR ?k = - 1"
    by (simp_all add: example_socket_consts_def)
  note p = send_length_check [where m = ?m and k = ?k and os = "\<lambda>c. 512" and lm = ?lp
      and iov = "[]" and call = ?call]
  note t = send_length_check [where m = ?m and k = ?k and os = "\<lambda>c. 512" and lm = ?ls
      and iov = "[]" and call = ?call]
  note l = send_length_check [where m = "example_message 513" and k = ?k and os = "\<lambda>c. 513"
      and lm = ?lp and iov = "[]" and call = ?call]
  have c1: "socket_link_send ?k (\<lambda>c. 512) ?lp ?m = Ret 1 None [?call] None"
    using p len vec(1) call(1) snt lty(1) unfolding c by blast
  have c2: "socket_link_send ?k (\<lambda>c. 512) ?ls ?m = Ret 1 None [?call] None"
    using t len vec(2) call(2) snt lty(2) unfolding c by blast
  have c3: "result_errno (socket_link_send ?k (\<lambda>c. 512) ?lp ?m) \<noteq> Some E2BIG"
    using p len by blast
  have c4: "socket_link_send ?k (\<lambda>c. 513) ?lp (example_message 513) =
      Ret (- 1) (Some E2BIG) [] None"
    using l b unfolding c by blast
  show ?thesis
    using c1 c2 c3 c4 by blast
qed

text \<open>
  The vectors the two links send for a message with one buffer parameter of 8 bytes at
  address \<open>0x7000\<close>: the packet link sends the buffer, the stream link an element with
  base 8 and length \<open>0x7000\<close>.
\<close>

lemma send_vectors_of_buffer_message:
  "result_calls (socket_link_send example_socket_consts (\<lambda>c. 36)
      (example_manager gracht_link_packet_based) example_buffer_message) =
     [SysSendmsg 3 [\<lparr>iov_base = MessagePtr, iov_len = 28\<rparr>,
                    \<lparr>iov_base = Ptr 0x7000, iov_len = 8\<rparr>] 0]
   \<and> result_calls (socket_link_send example_socket_consts (\<lambda>c. 36)
      (example_manager gracht_link_stream_based) example_buffer_message) =
     [SysSendmsg 3 [\<lparr>iov_base = MessagePtr, iov_len = 28\<rparr>,
                    \<lparr>iov_base = Ptr 8, iov_len = 0x7000\<rparr>] 0]"
  by (simp add: socket_link_send_def socket_link_send_packet_def socket_link_send_stream_def
      example_socket_consts_def example_manager_def example_buffer_message_def Let_def)

section \<open>Initialization\<close>

lemma link_listen_eq:
  "link_listen lnk kind s =
     (fst (listen lnk kind),
      (emit (Listen kind) s)\<lparr>errno := (case snd (listen lnk kind) of None \<Rightarrow> errno s | Some v \<Rightarrow> v)\<rparr>)"
  by (simp add: link_listen_def Let_def emit_def split: prod.split option.split)

lemma initialized_configure_server:
  "initialized (snd (configure_server k pf s c)) = initialized s"
  by (simp add: configure_server_def Let_def emit_def)

lemma initialized_create_links:
  "initialized (snd (create_links k lnk s)) = initialized s"
  by (simp add: create_links_def Let_def emit_def link_listen_eq)

lemma create_links_both_invalid:
  assumes "fst (listen lnk (LINK_LISTEN_SOCKET k)) = GRACHT_CONN_INVALID k"
    and "fst (listen lnk (LINK_LISTEN_DGRAM k)) = GRACHT_CONN_INVALID k"
  shows "fst (create_links k lnk s) = - 1"
  using assms
  by (simp add: create_links_def Let_def emit_def link_listen_eq)

lemma create_links_stream_unsupported:
  assumes "listen lnk (LINK_LISTEN_SOCKET k) = (GRACHT_CONN_INVALID k, Some ENOTSUP)"
    and "listen lnk (LINK_LISTEN_DGRAM k) = (h, e)" and "h \<noteq> GRACHT_CONN_INVALID k"
  shows "fst (create_links k lnk s) = 0
    \<and> listen_handle (snd (create_links k lnk s)) = GRACHT_CONN_INVALID k
    \<and> dgram_handle (snd (create_links k lnk s)) = h"
  using assms
  by (simp add: create_links_def Let_def emit_def link_listen_eq)

lemma create_links_dgram_unsupported:
  assumes "listen lnk (LINK_LISTEN_SOCKET k) = (h, e)" and "h \<noteq> GRACHT_CONN_INVALID k"
    and "listen lnk (LINK_LISTEN_DGRAM k) = (GRACHT_CONN_INVALID k, Some ENOTSUP)"
  shows "fst (create_links k lnk s) = 0
    \<and> listen_handle (snd (create_links k lnk s)) = h
    \<and> dgram_handle (snd (create_links k lnk s)) = GRACHT_CONN_INVALID k"
  using assms
  by (simp add: create_links_def Let_def emit_def link_listen_eq)

lemma initialize_after_configure:
  assumes "initialized s = 0" and "configure_server k pf s c = (0, s1)"
  shows "gracht_server_initialize k pf lnk s (Some c) =
     (if fst (create_links k lnk s1) \<noteq> 0 then (- 1, snd (create_links k lnk s1))
      else (0, (snd (create_links k lnk s1))
         \<lparr>protocols := [gracht_control_server_protocol k], clients := [], initialized := 1\<rparr>))"
  using assms
  by (simp add: gracht_server_initialize_def gracht_server_register_protocol_def Let_def
      split: prod.split)

lemma initialize_both_invalid:
  assumes "fst (listen lnk (LINK_LISTEN_SOCKET k)) = GRACHT_CONN_INVALID k"
    and "fst (listen lnk (LINK_LISTEN_DGRAM k)) = GRACHT_CONN_INVALID k"
  shows "fst (gracht_server_initialize k pf lnk s cfg) = - 1"
proof (cases "initialized s \<noteq> 0 \<or> cfg = None")
  case True
  then show ?thesis by (auto simp: gracht_server_initialize_def)
next
  case False
  then obtain c where c: "initialized s = 0" "cfg = Some c" by auto
  obtain st s1 where s1: "configure_server k pf s c = (st, s1)" by (cases "configure_server k pf s c")
  show ?thesis
  proof (cases "st = 0")
    case True
    with c s1 create_links_both_invalid [OF assms, of s1] show ?thesis
      by (simp add: initialize_after_configure)
  next
    case False
    with c s1 show ?thesis by (simp add: gracht_server_initialize_def)
  qed
qed

lemma initialize_success_initialized:
  "fst (gracht_server_initialize k pf lnk s cfg) = 0 \<Longrightarrow>
     initialized (snd (gracht_server_initialize k pf lnk s cfg)) = 1"
  by (auto simp: gracht_server_initialize_def gracht_server_register_protocol_def Let_def
      split: if_splits option.splits prod.splits)

text \<open>
  C8. \<open>gracht_server_initialize\<close> fails with \<open>EALREADY\<close> on a server that is initialized
  and with \<open>EINVAL\<close> on a null configuration. After a successful \<open>configure_server\<close>, when
  one of the two \<open>listen\<close> calls fails with \<open>ENOTSUP\<close> and the other yields a handle, it
  returns 0 with the server initialized and the handle kept. When both \<open>listen\<close> calls
  yield no handle it returns -1 and does not mark the server initialized. Whenever it
  returns 0 the server is marked initialized.
\<close>

theorem initialize_outcomes:
  "(initialized s \<noteq> 0 \<longrightarrow>
      gracht_server_initialize k pf lnk s cfg = (- 1, s\<lparr>errno := EALREADY\<rparr>))
   \<and> (initialized s = 0 \<longrightarrow>
      gracht_server_initialize k pf lnk s None = (- 1, s\<lparr>errno := EINVAL\<rparr>))
   \<and> (initialized s = 0 \<and> configure_server k pf s c = (0, s1)
        \<and> listen lnk (LINK_LISTEN_SOCKET k) = (GRACHT_CONN_INVALID k, Some ENOTSUP)
        \<and> listen lnk (LINK_LISTEN_DGRAM k) = (h, e) \<and> h \<noteq> GRACHT_CONN_INVALID k \<longrightarrow>
      fst (gracht_server_initialize k pf lnk s (Some c)) = 0
      \<and> initialized (snd (gracht_server_initialize k pf lnk s (Some c))) = 1
      \<and> listen_handle (snd (gracht_server_initialize k pf lnk s (Some c))) = GRACHT_CONN_INVALID k
      \<and> dgram_handle (snd (gracht_server_initialize k pf lnk s (Some c))) = h)
   \<and> (initialized s = 0 \<and> configure_server k pf s c = (0, s1)
        \<and> listen lnk (LINK_LISTEN_SOCKET k) = (h, e) \<and> h \<noteq> GRACHT_CONN_INVALID k
        \<and> listen lnk (LINK_LISTEN_DGRAM k) = (GRACHT_CONN_INVALID k, Some ENOTSUP) \<longrightarrow>
      fst (gracht_server_initialize k pf lnk s (Some c)) = 0
      \<and> initialized (snd (gracht_server_initialize k pf lnk s (Some c))) = 1
      \<and> listen_handle (snd (gracht_server_initialize k pf lnk s (Some c))) = h
      \<and> dgram_handle (snd (gracht_server_initialize k pf lnk s (Some c))) = GRACHT_CONN_INVALID k)
   \<and> (fst (listen lnk (LINK_LISTEN_SOCKET k)) = GRACHT_CONN_INVALID k
        \<and> fst (listen lnk (LINK_LISTEN_DGRAM k)) = GRACHT_CONN_INVALID k \<longrightarrow>
      fst (gracht_server_initialize k pf lnk s cfg) = - 1
      \<and> initialized (snd (gracht_server_initialize k pf lnk s cfg)) = initialized s)
   \<and> (fst (gracht_server_initialize k pf lnk s cfg) = 0 \<longrightarrow>
      initialized (snd (gracht_server_initialize k pf lnk s cfg)) = 1)"
proof (intro conjI impI)
  show "gracht_server_initialize k pf lnk s cfg = (- 1, s\<lparr>errno := EALREADY\<rparr>)"
    if "initialized s \<noteq> 0"
    using that by (simp add: gracht_server_initialize_def)
  show "gracht_server_initialize k pf lnk s None = (- 1, s\<lparr>errno := EINVAL\<rparr>)"
    if "initialized s = 0"
    using that by (simp add: gracht_server_initialize_def)
next
  assume a: "initialized s = 0 \<and> configure_server k pf s c = (0, s1)
        \<and> listen lnk (LINK_LISTEN_SOCKET k) = (GRACHT_CONN_INVALID k, Some ENOTSUP)
        \<and> listen lnk (LINK_LISTEN_DGRAM k) = (h, e) \<and> h \<noteq> GRACHT_CONN_INVALID k"
  then have i: "gracht_server_initialize k pf lnk s (Some c) =
     (if fst (create_links k lnk s1) \<noteq> 0 then (- 1, snd (create_links k lnk s1))
      else (0, (snd (create_links k lnk s1))
         \<lparr>protocols := [gracht_control_server_protocol k], clients := [], initialized := 1\<rparr>))"
    by (simp add: initialize_after_configure)
  from a have l: "fst (create_links k lnk s1) = 0
    \<and> listen_handle (snd (create_links k lnk s1)) = GRACHT_CONN_INVALID k
    \<and> dgram_handle (snd (create_links k lnk s1)) = h"
    by (intro create_links_stream_unsupported) auto
  show "fst (gracht_server_initialize k pf lnk s (Some c)) = 0"
    "initialized (snd (gracht_server_initialize k pf lnk s (Some c))) = 1"
    "listen_handle (snd (gracht_server_initialize k pf lnk s (Some c))) = GRACHT_CONN_INVALID k"
    "dgram_handle (snd (gracht_server_initialize k pf lnk s (Some c))) = h"
    using l by (simp_all add: i)
next
  assume a: "initialized s = 0 \<and> configure_server k pf s c = (0, s1)
        \<and> listen lnk (LINK_LISTEN_SOCKET k) = (h, e) \<and> h \<noteq> GRACHT_CONN_INVALID k
        \<and> listen lnk (LINK_LISTEN_DGRAM k) = (GRACHT_CONN_INVALID k, Some ENOTSUP)"
  then have i: "gracht_server_initialize k pf lnk s (Some c) =
     (if fst (create_links k lnk s1) \<noteq> 0 then (- 1, snd (create_links k lnk s1))
      else (0, (snd (create_links k lnk s1))
         \<lparr>protocols := [gracht_control_server_protocol k], clients := [], initialized := 1\<rparr>))"
    by (simp add: initialize_after_configure)
  from a have l: "fst (create_links k lnk s1) = 0
    \<and> listen_handle (snd (create_links k lnk s1)) = h
    \<and> dgram_handle (snd (create_links k lnk s1)) = GRACHT_CONN_INVALID k"
    by (intro create_links_dgram_unsupported) auto
  show "fst (gracht_server_initialize k pf lnk s (Some c)) = 0"
    "initialized (snd (gracht_server_initialize k pf lnk s (Some c))) = 1"
    "listen_handle (snd (gracht_server_initialize k pf lnk s (Some c))) = h"
    "dgram_handle (snd (gracht_server_initialize k pf lnk s (Some c))) = GRACHT_CONN_INVALID k"
    using l by (simp_all add: i)
next
  assume a: "fst (listen lnk (LINK_LISTEN_SOCKET k)) = GRACHT_CONN_INVALID k
        \<and> fst (listen lnk (LINK_LISTEN_DGRAM k)) = GRACHT_CONN_INVALID k"
  then show "fst (gracht_server_initialize k pf lnk s cfg) = - 1"
    by (simp add: initialize_both_invalid)
  show "initialized (snd (gracht_server_initialize k pf lnk s cfg)) = initialized s"
    using a initialize_both_invalid [of lnk k pf s cfg]
      initialized_configure_server [of k pf s] initialized_create_links [of k lnk]
    by (auto simp: gracht_server_initialize_def Let_def split: option.splits prod.splits if_splits)
       (metis snd_conv)+
next
  assume "fst (gracht_server_initialize k pf lnk s cfg) = 0"
  then show "initialized (snd (gracht_server_initialize k pf lnk s cfg)) = 1"
    by (rule initialize_success_initialized)
qed

theorem initialize_outcomes_witness:
  "gracht_server_initialize example_consts example_platform example_link example_server
      (Some example_configuration) = (- 1, example_server\<lparr>errno := EALREADY\<rparr>)
   \<and> gracht_server_initialize example_consts example_platform example_link
      (g_grachtServer example_consts) None = (- 1, (g_grachtServer example_consts)\<lparr>errno := EINVAL\<rparr>)
   \<and> gracht_server_initialize example_consts example_platform dgram_only_link
      (g_grachtServer example_consts) (Some example_configuration) =
        (0, configured_server
           \<lparr>dgram_handle := 4, errno := ENOTSUP,
            protocols := [gracht_control_server_protocol example_consts], initialized := 1,
            trace := [AioCreate, Malloc 1024, Malloc 1024, Listen 0, Listen 1, AioAdd 2 4]\<rparr>)
   \<and> fst (gracht_server_initialize example_consts example_platform stream_only_link
      (g_grachtServer example_consts) (Some example_configuration)) = 0
   \<and> initialized (snd (gracht_server_initialize example_consts example_platform stream_only_link
      (g_grachtServer example_consts) (Some example_configuration))) = 1
   \<and> listen_handle (snd (gracht_server_initialize example_consts example_platform stream_only_link
      (g_grachtServer example_consts) (Some example_configuration))) = 3
   \<and> fst (gracht_server_initialize example_consts example_platform no_link
      (g_grachtServer example_consts) (Some example_configuration)) = - 1"
proof -
  let ?k = example_consts and ?s = "g_grachtServer example_consts"
  let ?c = example_configuration
  have i: "initialized example_server \<noteq> 0" "initialized ?s = 0"
    by (simp_all add: example_server_def g_grachtServer_def)
  have cfg: "configure_server ?k example_platform ?s ?c = (0, configured_server)"
    by (simp add: configure_server_def example_consts_def example_platform_def
        example_configuration_def g_grachtServer_def configured_server_def emit_def Let_def)
  have d: "listen dgram_only_link (LINK_LISTEN_SOCKET ?k) = (GRACHT_CONN_INVALID ?k, Some ENOTSUP)"
    "listen dgram_only_link (LINK_LISTEN_DGRAM ?k) = (4, None)" "4 \<noteq> GRACHT_CONN_INVALID ?k"
    by (simp_all add: dgram_only_link_def example_consts_def)
  have t: "listen stream_only_link (LINK_LISTEN_SOCKET ?k) = (3, None)"
    "3 \<noteq> GRACHT_CONN_INVALID ?k"
    "listen stream_only_link (LINK_LISTEN_DGRAM ?k) = (GRACHT_CONN_INVALID ?k, Some ENOTSUP)"
    by (simp_all add: stream_only_link_def example_consts_def)
  have n: "fst (listen no_link (LINK_LISTEN_SOCKET ?k)) = GRACHT_CONN_INVALID ?k"
    "fst (listen no_link (LINK_LISTEN_DGRAM ?k)) = GRACHT_CONN_INVALID ?k"
    by (simp_all add: no_link_def example_consts_def)
  have c1: "gracht_server_initialize ?k example_platform example_link example_server
      (Some ?c) = (- 1, example_server\<lparr>errno := EALREADY\<rparr>)"
    using initialize_outcomes [of example_server ?k example_platform example_link "Some ?c"] i(1)
    by blast
  have c2: "gracht_server_initialize ?k example_platform example_link ?s None =
      (- 1, ?s\<lparr>errno := EINVAL\<rparr>)"
    using initialize_outcomes [of ?s ?k example_platform example_link] i(2) by blast
  have c3: "fst (gracht_server_initialize ?k example_platform dgram_only_link ?s (Some ?c)) = 0"
    using initialize_outcomes [of ?s ?k example_platform dgram_only_link "Some ?c" ?c
        configured_server 4 None] i(2) cfg d by blast
  have c3': "gracht_server_initialize ?k example_platform dgram_only_link ?s (Some ?c) =
        (0, configured_server
           \<lparr>dgram_handle := 4, errno := ENOTSUP,
            protocols := [gracht_control_server_protocol example_consts], initialized := 1,
            trace := [AioCreate, Malloc 1024, Malloc 1024, Listen 0, Listen 1, AioAdd 2 4]\<rparr>)"
    unfolding initialize_after_configure [OF i(2) cfg]
    using d by (simp add: create_links_def link_listen_eq emit_def configured_server_def
        g_grachtServer_def example_consts_def)
  have c4: "fst (gracht_server_initialize ?k example_platform stream_only_link ?s (Some ?c)) = 0
     \<and> initialized (snd (gracht_server_initialize ?k example_platform stream_only_link ?s
          (Some ?c))) = 1
     \<and> listen_handle (snd (gracht_server_initialize ?k example_platform stream_only_link ?s
          (Some ?c))) = 3"
    using initialize_outcomes [of ?s ?k example_platform stream_only_link "Some ?c" ?c
        configured_server 3 None] i(2) cfg t by blast
  have c5: "fst (gracht_server_initialize ?k example_platform no_link ?s (Some ?c)) = - 1"
    using initialize_outcomes [of ?s ?k example_platform no_link "Some ?c"] n by blast
  show ?thesis
    using c1 c2 c3 c3' c4 c5 by blast
qed

end
